theory Spec2Isabelle
  imports Main "HOL-Library.Word" "HOL-Library.Monad_Syntax"
begin

unbundle bit_operations_syntax

section \<open>Bytes, slices and little-endian integers\<close>

text \<open>
  The codec of \<^verbatim>\<open>protocol/ed2k/message_c2s_tcp.go\<close> works on Go byte slices. A byte
  is an 8-bit word and a slice is a list of bytes. Go's \<^verbatim>\<open>int\<close> is taken to be 64 bits
  wide, so that \<^verbatim>\<open>int(x)\<close> of a \<^verbatim>\<open>uint32\<close> is \<open>unat x\<close> and the positions computed by
  the decoders do not overflow.

  An index or slice expression that is out of range panics in Go. The panic is the value
  \<open>None\<close> of the three readers below; a slice is taken to have no spare capacity beyond
  its length.
\<close>

type_synonym byte = "8 word"

definition index :: "byte list \<Rightarrow> nat \<Rightarrow> byte option" where
  "index data i = (if i < length data then Some (data ! i) else None)"

definition slice :: "byte list \<Rightarrow> nat \<Rightarrow> nat \<Rightarrow> byte list option" where
  "slice data lo hi =
     (if lo \<le> hi \<and> hi \<le> length data then Some (take (hi - lo) (drop lo data)) else None)"

definition slice_from :: "byte list \<Rightarrow> nat \<Rightarrow> byte list option" where
  "slice_from data lo = (if lo \<le> length data then Some (drop lo data) else None)"

text \<open>
  \<^verbatim>\<open>binary.LittleEndian\<close> of Go's standard library: \<^verbatim>\<open>PutUint16\<close>, \<^verbatim>\<open>PutUint32\<close> (also what
  \<^verbatim>\<open>binary.Write(buf, binary.LittleEndian, v)\<close> appends for a \<^verbatim>\<open>uint16\<close> or \<^verbatim>\<open>uint32\<close>),
  and \<^verbatim>\<open>Uint16\<close>, \<^verbatim>\<open>Uint32\<close>, which panic on a slice that is too short.
\<close>

definition PutUint16 :: "16 word \<Rightarrow> byte list" where
  "PutUint16 v = [ucast v, ucast (drop_bit 8 v)]"

definition PutUint32 :: "32 word \<Rightarrow> byte list" where
  "PutUint32 v = [ucast v, ucast (drop_bit 8 v), ucast (drop_bit 16 v), ucast (drop_bit 24 v)]"

fun Uint16 :: "byte list \<Rightarrow> 16 word option" where
  "Uint16 (b0 # b1 # _) = Some (ucast b0 OR push_bit 8 (ucast b1))"
| "Uint16 _ = None"

fun Uint32 :: "byte list \<Rightarrow> 32 word option" where
  "Uint32 (b0 # b1 # b2 # b3 # _) =
     Some (ucast b0 OR push_bit 8 (ucast b1) OR push_bit 16 (ucast b2) OR push_bit 24 (ucast b3))"
| "Uint32 _ = None"

text \<open>
  \<^verbatim>\<open>copy(dst[:], src)\<close> into a \<^verbatim>\<open>[16]byte\<close> array: the number of bytes copied is the
  smaller of 16 and \<^verbatim>\<open>len(src)\<close>; the result is the new array and that number.
\<close>

definition copy16 :: "byte list \<Rightarrow> byte list \<Rightarrow> byte list \<times> nat" where
  "copy16 dst src = (let n = min 16 (length src) in (take n src @ drop n dst, n))"

section \<open>Errors, header and the parts declared outside this file\<close>

text \<open>
  The error kinds of the codec. \<^verbatim>\<open>ErrShortBuffer\<close> and \<^verbatim>\<open>ErrWrongMessageType\<close> are the
  two the message decoders return themselves; the other two are the kinds the
  specification names for a tag or file reader besides.
\<close>

datatype error = ErrShortBuffer | ErrWrongMessageType | ErrUnknownTagType | ErrInvalidLength

record Header =
  Protocol :: byte
  Size :: "32 word"

text \<open>Modelled from the spec: the constant \<^verbatim>\<open>HeaderLength\<close>, the fixed 5-byte prefix.\<close>

definition HeaderLength :: nat where
  "HeaderLength = 5"

text \<open>
  Modelled from the spec: \<^verbatim>\<open>Header.WriteTo\<close>, declared outside the file. It writes the
  protocol marker, then the payload length as a little-endian \<^verbatim>\<open>uint32\<close>, and never
  fails.
\<close>

definition Header_WriteTo :: "Header \<Rightarrow> byte list" where
  "Header_WriteTo h = Protocol h # PutUint32 (Size h)"

text \<open>
  Modelled from the spec: \<^verbatim>\<open>Header.Decode\<close>, declared outside the file. It fails with
  \<^verbatim>\<open>ErrShortBuffer\<close> on fewer than 5 bytes and otherwise reads the marker and the length.
\<close>

definition Header_Decode :: "byte list \<Rightarrow> error + Header" where
  "Header_Decode data =
     (if length data < HeaderLength then Inl ErrShortBuffer
      else case Uint32 (take 4 (drop 1 data)) of
             None \<Rightarrow> Inl ErrShortBuffer
           | Some s \<Rightarrow> Inr \<lparr>Protocol = data ! 0, Size = s\<rparr>)"

text \<open>Modelled from the spec: \<^verbatim>\<open>UID.Bytes\<close>, a direct copy of the 16 bytes.\<close>

definition UID_Bytes :: "byte list \<Rightarrow> byte list" where
  "UID_Bytes u = u"

text \<open>
  The message type constants and the Tag and File codecs are declared outside the file
  and are parameters of the model. A writer returns the bytes it appends to the buffer or
  an error; a reader takes the unread bytes of the \<^verbatim>\<open>bytes.Reader\<close> and returns the value
  with the bytes left unread, or an error.
\<close>

record ('tag, 'file) env =
  MessageLoginRequest :: byte
  MessageServerMessage :: byte
  MessageIDChange :: byte
  MessageOfferFiles :: byte
  MessageGetServerList :: byte
  MessageServerList :: byte
  MessageServerStatus :: byte
  MessageServerIdent :: byte
  Tag_WriteTo :: "'tag \<Rightarrow> error + byte list"
  ReadTag :: "byte list \<Rightarrow> error + 'tag \<times> byte list"
  File_WriteTo :: "'file \<Rightarrow> error + byte list"
  ReadFile :: "byte list \<Rightarrow> error + 'file \<times> byte list"

text \<open>
  The last two statements of every \<^verbatim>\<open>Encode\<close>: the length field at offsets 1 to 5 is
  overwritten with \<^verbatim>\<open>uint32(len(data) - HeaderLength)\<close>.
\<close>

definition put_size :: "byte list \<Rightarrow> byte list" where
  "put_size data =
     take 1 data @ PutUint32 (of_nat (length data - HeaderLength)) @ drop 5 data"

text \<open>
  The loop \<^verbatim>\<open>for _, x := range xs { if _, err = x.WriteTo(buf); err != nil { return } }\<close>:
  \<^verbatim>\<open>data\<close> is still nil when an element fails, so only the error is returned.
\<close>

fun write_all :: "('a \<Rightarrow> error + byte list) \<Rightarrow> byte list \<Rightarrow> 'a list \<Rightarrow> error + byte list" where
  "write_all w buf [] = Inr buf"
| "write_all w buf (x # xs) =
     (case w x of Inl err \<Rightarrow> Inl err | Inr b \<Rightarrow> write_all w (buf @ b) xs)"

text \<open>
  The loop \<^verbatim>\<open>for i := 0; i < int(count); i++ { x, err := Read(r); if err != nil { return err };
  xs = append(xs, x) }\<close>: the elements read before a failure stay appended to the
  receiver's list.
\<close>

fun read_all :: "(byte list \<Rightarrow> error + 'a \<times> byte list) \<Rightarrow> nat \<Rightarrow> byte list \<Rightarrow> 'a list
    \<Rightarrow> 'a list \<times> error option" where
  "read_all rd 0 r acc = (acc, None)"
| "read_all rd (Suc n) r acc =
     (case rd r of Inl err \<Rightarrow> (acc, Some err) | Inr (x, r') \<Rightarrow> read_all rd n r' (acc @ [x]))"

section \<open>The messages\<close>

text \<open>
  Every message embeds the struct \<^verbatim>\<open>message\<close>, which holds the header. \<^verbatim>\<open>Encode\<close> has
  a pointer receiver that may be nil (\<open>None\<close>) and returns the data or an error.
  \<^verbatim>\<open>Decode\<close> assigns to the fields of its receiver as it goes: it takes the receiver and
  returns it as it is when the call ends together with the error (\<open>None\<close> for nil); the
  outer \<open>None\<close> is a panic.
\<close>

record message =
  Header :: Header

subsection \<open>LoginMessage\<close>

record 'tag LoginMessage = message +
  UID :: "byte list"
  ClientID :: "32 word"
  Port :: "16 word"
  Tags :: "'tag list"

definition LoginMessage_Encode :: "('tag, 'file) env \<Rightarrow> 'tag LoginMessage option
    \<Rightarrow> error + byte list" where
  "LoginMessage_Encode E mo =
     (case mo of
        None \<Rightarrow> Inr []
      | Some m \<Rightarrow>
          (let buf = Header_WriteTo (Header m);
               buf = buf @ [MessageLoginRequest E];
               buf = buf @ UID_Bytes (UID m);
               buf = buf @ PutUint32 (LoginMessage.ClientID m);
               buf = buf @ PutUint16 (LoginMessage.Port m);
               buf = buf @ PutUint32 (of_nat (length (LoginMessage.Tags m)))
           in case write_all (Tag_WriteTo E) buf (LoginMessage.Tags m) of
                Inl err \<Rightarrow> Inl err
              | Inr data \<Rightarrow> Inr (put_size data)))"

definition LoginMessage_Decode :: "('tag, 'file) env \<Rightarrow> 'tag LoginMessage \<Rightarrow> byte list
    \<Rightarrow> ('tag LoginMessage \<times> error option) option" where
  "LoginMessage_Decode E m data =
     (case Header_Decode data of
        Inl err \<Rightarrow> Some (m, Some err)
      | Inr header \<Rightarrow>
          let pos = HeaderLength in
          if length data < pos + unat (Size header) \<or> length data < pos + 1 + 16 + 4 + 2 + 4
          then Some (m, Some ErrShortBuffer)
          else do {
            d5 \<leftarrow> index data 5;
            if d5 \<noteq> MessageLoginRequest E then Some (m, Some ErrWrongMessageType)
            else do {
              let m = m\<lparr>Header := header\<rparr>;
              let pos = pos + 1;
              src \<leftarrow> slice data pos (pos + 16);
              let m = m\<lparr>UID := fst (copy16 (UID m) src)\<rparr>;
              let pos = pos + 16;
              b \<leftarrow> slice data pos (pos + 4);
              v \<leftarrow> Uint32 b;
              let m = m\<lparr>LoginMessage.ClientID := v\<rparr>;
              let pos = pos + 4;
              b \<leftarrow> slice data pos (pos + 2);
              v \<leftarrow> Uint16 b;
              let m = m\<lparr>LoginMessage.Port := v\<rparr>;
              let pos = pos + 2;
              b \<leftarrow> slice data pos (pos + 4);
              tagCount \<leftarrow> Uint32 b;
              let pos = pos + 4;
              r \<leftarrow> slice_from data pos;
              let (tags, err) = read_all (ReadTag E) (unat tagCount) r (LoginMessage.Tags m);
              Some (m\<lparr>LoginMessage.Tags := tags\<rparr>, err)
            }
          })"

subsection \<open>ServerMessage\<close>

text \<open>The Go string \<^verbatim>\<open>Messages\<close> is its sequence of bytes.\<close>

record ServerMessage = message +
  Messages :: "byte list"

definition ServerMessage_Encode :: "('tag, 'file) env \<Rightarrow> ServerMessage option
    \<Rightarrow> error + byte list" where
  "ServerMessage_Encode E mo =
     (case mo of
        None \<Rightarrow> Inr []
      | Some m \<Rightarrow>
          (let buf = Header_WriteTo (Header m);
               buf = buf @ [MessageServerMessage E];
               size = length (Messages m);
               buf = buf @ PutUint16 (of_nat size);
               buf = buf @ Messages m
           in Inr (put_size buf)))"

definition ServerMessage_Decode :: "('tag, 'file) env \<Rightarrow> ServerMessage \<Rightarrow> byte list
    \<Rightarrow> (ServerMessage \<times> error option) option" where
  "ServerMessage_Decode E m data =
     (case Header_Decode data of
        Inl err \<Rightarrow> Some (m, Some err)
      | Inr header \<Rightarrow>
          let pos = HeaderLength in
          if length data < pos + unat (Size header) \<or> length data < pos + 3
          then Some (m, Some ErrShortBuffer)
          else do {
            d5 \<leftarrow> index data 5;
            if d5 \<noteq> MessageServerMessage E then Some (m, Some ErrWrongMessageType)
            else do {
              let m = m\<lparr>Header := header\<rparr>;
              let pos = pos + 1;
              b \<leftarrow> slice data pos (pos + 2);
              size \<leftarrow> Uint16 b;
              let pos = pos + 2;
              if length data < pos + unat size then Some (m, Some ErrShortBuffer)
              else do {
                s \<leftarrow> slice data pos (pos + unat size);
                Some (m\<lparr>Messages := s\<rparr>, None)
              }
            }
          })"

subsection \<open>IDChangeMessage\<close>

record IDChangeMessage = message +
  ClientID :: "32 word"
  Bitmap :: "32 word"

definition IDChangeMessage_Encode :: "('tag, 'file) env \<Rightarrow> IDChangeMessage option
    \<Rightarrow> error + byte list" where
  "IDChangeMessage_Encode E mo =
     (case mo of
        None \<Rightarrow> Inr []
      | Some m \<Rightarrow>
          (let buf = Header_WriteTo (Header m);
               buf = buf @ [MessageIDChange E];
               buf = buf @ PutUint32 (IDChangeMessage.ClientID m);
               buf = buf @ PutUint32 (Bitmap m)
           in Inr (put_size buf)))"

definition IDChangeMessage_Decode :: "('tag, 'file) env \<Rightarrow> IDChangeMessage \<Rightarrow> byte list
    \<Rightarrow> (IDChangeMessage \<times> error option) option" where
  "IDChangeMessage_Decode E m data =
     (case Header_Decode data of
        Inl err \<Rightarrow> Some (m, Some err)
      | Inr header \<Rightarrow>
          let pos = HeaderLength in
          if length data < pos + unat (Size header) \<or> length data < pos + 9
          then Some (m, Some ErrShortBuffer)
          else do {
            d5 \<leftarrow> index data 5;
            if d5 \<noteq> MessageIDChange E then Some (m, Some ErrWrongMessageType)
            else do {
              let m = m\<lparr>Header := header\<rparr>;
              let pos = pos + 1;
              b \<leftarrow> slice data pos (pos + 4);
              v \<leftarrow> Uint32 b;
              let m = m\<lparr>IDChangeMessage.ClientID := v\<rparr>;
              let pos = pos + 4;
              b \<leftarrow> slice data pos (pos + 4);
              v \<leftarrow> Uint32 b;
              let m = m\<lparr>Bitmap := v\<rparr>;
              Some (m, None)
            }
          })"

subsection \<open>OfferFilesMessage\<close>

record 'file OfferFilesMessage = message +
  Files :: "'file list"

definition OfferFilesMessage_Encode :: "('tag, 'file) env \<Rightarrow> 'file OfferFilesMessage option
    \<Rightarrow> error + byte list" where
  "OfferFilesMessage_Encode E mo =
     (case mo of
        None \<Rightarrow> Inr []
      | Some m \<Rightarrow>
          (let buf = Header_WriteTo (Header m);
               buf = buf @ [MessageOfferFiles E];
               buf = buf @ PutUint32 (of_nat (length (Files m)))
           in case write_all (File_WriteTo E) buf (Files m) of
                Inl err \<Rightarrow> Inl err
              | Inr data \<Rightarrow> Inr (put_size data)))"

definition OfferFilesMessage_Decode :: "('tag, 'file) env \<Rightarrow> 'file OfferFilesMessage
    \<Rightarrow> byte list \<Rightarrow> ('file OfferFilesMessage \<times> error option) option" where
  "OfferFilesMessage_Decode E m data =
     (case Header_Decode data of
        Inl err \<Rightarrow> Some (m, Some err)
      | Inr header \<Rightarrow>
          let pos = HeaderLength in
          if length data < pos + unat (Size header) \<or> length data < pos + 5
          then Some (m, Some ErrShortBuffer)
          else do {
            d5 \<leftarrow> index data 5;
            if d5 \<noteq> MessageOfferFiles E then Some (m, Some ErrWrongMessageType)
            else do {
              let m = m\<lparr>Header := header\<rparr>;
              let pos = pos + 1;
              b \<leftarrow> slice data pos (pos + 4);
              fileCount \<leftarrow> Uint32 b;
              let pos = pos + 4;
              r \<leftarrow> slice_from data pos;
              let (files, err) = read_all (ReadFile E) (unat fileCount) r (Files m);
              Some (m\<lparr>Files := files\<rparr>, err)
            }
          })"

subsection \<open>GetServerListMessage\<close>

text \<open>The struct has no field besides the embedded \<^verbatim>\<open>message\<close>.\<close>

type_synonym GetServerListMessage = message

definition GetServerListMessage_Encode :: "('tag, 'file) env \<Rightarrow> GetServerListMessage option
    \<Rightarrow> error + byte list" where
  "GetServerListMessage_Encode E mo =
     (case mo of
        None \<Rightarrow> Inr []
      | Some m \<Rightarrow>
          (let buf = Header_WriteTo (Header m);
               buf = buf @ [MessageGetServerList E]
           in Inr (put_size buf)))"

definition GetServerListMessage_Decode :: "('tag, 'file) env \<Rightarrow> GetServerListMessage
    \<Rightarrow> byte list \<Rightarrow> (GetServerListMessage \<times> error option) option" where
  "GetServerListMessage_Decode E m data =
     (case Header_Decode data of
        Inl err \<Rightarrow> Some (m, Some err)
      | Inr header \<Rightarrow>
          let pos = HeaderLength in
          if length data < pos + unat (Size header) \<or> length data < pos + 1
          then Some (m, Some ErrShortBuffer)
          else do {
            d5 \<leftarrow> index data 5;
            if d5 \<noteq> MessageGetServerList E then Some (m, Some ErrWrongMessageType)
            else Some (m\<lparr>Header := header\<rparr>, None)
          })"

subsection \<open>ServerListMessage\<close>

text \<open>
  \<^verbatim>\<open>net.TCPAddr\<close> and \<^verbatim>\<open>net.IP\<close> of Go's standard library. An IP is a byte slice of
  length 4 or 16; \<^verbatim>\<open>To4\<close> returns the 4-byte form of an IPv4 address (given in 4 bytes,
  or in 16 bytes with the prefix of an IPv4-mapped address) and nil for anything else.
  \<^verbatim>\<open>net.IPv4zero\<close> is the 16-byte form of 0.0.0.0. \<^verbatim>\<open>Port\<close> is a Go \<^verbatim>\<open>int\<close>.
\<close>

record TCPAddr =
  IP :: "byte list"
  Port :: int
  Zone :: string

definition To4 :: "byte list \<Rightarrow> byte list" where
  "To4 ip =
     (if length ip = 4 then ip
      else if length ip = 16 \<and> take 10 ip = replicate 10 0 \<and> ip ! 10 = 0xff \<and> ip ! 11 = 0xff
      then drop 12 ip
      else [])"

definition IPv4zero :: "byte list" where
  "IPv4zero = replicate 10 0 @ [0xff, 0xff, 0, 0, 0, 0]"

text \<open>\<^verbatim>\<open>Servers\<close> is a slice of pointers; a nil pointer is \<open>None\<close>.\<close>

record ServerListMessage = message +
  Servers :: "TCPAddr option list"

fun write_servers :: "byte list \<Rightarrow> TCPAddr option list \<Rightarrow> byte list" where
  "write_servers buf [] = buf"
| "write_servers buf (addr # rest) =
     (let addr = (case addr of
                    None \<Rightarrow> \<lparr>IP = IPv4zero, Port = 0, Zone = []\<rparr>
                  | Some a \<Rightarrow> a);
          buf = buf @ To4 (IP addr);
          buf = buf @ PutUint16 (of_int (TCPAddr.Port addr))
      in write_servers buf rest)"

definition ServerListMessage_Encode :: "('tag, 'file) env \<Rightarrow> ServerListMessage option
    \<Rightarrow> error + byte list" where
  "ServerListMessage_Encode E mo =
     (case mo of
        None \<Rightarrow> Inr []
      | Some m \<Rightarrow>
          (let buf = Header_WriteTo (Header m);
               buf = buf @ [MessageServerList E];
               buf = buf @ [of_nat (length (Servers m))];
               buf = write_servers buf (Servers m)
           in Inr (put_size buf)))"

fun read_servers :: "byte list \<Rightarrow> nat \<Rightarrow> nat \<Rightarrow> TCPAddr option list
    \<Rightarrow> TCPAddr option list option" where
  "read_servers data 0 pos acc = Some acc"
| "read_servers data (Suc n) pos acc =
     do {
       ip \<leftarrow> slice data pos (pos + 4);
       b \<leftarrow> slice data (pos + 4) (pos + 6);
       port \<leftarrow> Uint16 b;
       read_servers data n (pos + 6) (acc @ [Some \<lparr>IP = ip, Port = uint port, Zone = []\<rparr>])
     }"

definition ServerListMessage_Decode :: "('tag, 'file) env \<Rightarrow> ServerListMessage \<Rightarrow> byte list
    \<Rightarrow> (ServerListMessage \<times> error option) option" where
  "ServerListMessage_Decode E m data =
     (case Header_Decode data of
        Inl err \<Rightarrow> Some (m, Some err)
      | Inr header \<Rightarrow>
          let pos = HeaderLength in
          if length data < pos + unat (Size header) \<or> length data < pos + 2
          then Some (m, Some ErrShortBuffer)
          else do {
            d5 \<leftarrow> index data 5;
            if d5 \<noteq> MessageServerList E then Some (m, Some ErrWrongMessageType)
            else do {
              let m = m\<lparr>Header := header\<rparr>;
              let pos = pos + 1;
              c \<leftarrow> index data pos;
              let count = unat c;
              let pos = pos + 1;
              if length data < pos + count * 6 then Some (m, Some ErrShortBuffer)
              else do {
                servers \<leftarrow> read_servers data count pos (Servers m);
                Some (m\<lparr>Servers := servers\<rparr>, None)
              }
            }
          })"

subsection \<open>ServerStatusMessage\<close>

record ServerStatusMessage = message +
  UserCount :: "32 word"
  FileCount :: "32 word"

definition ServerStatusMessage_Encode :: "('tag, 'file) env \<Rightarrow> ServerStatusMessage option
    \<Rightarrow> error + byte list" where
  "ServerStatusMessage_Encode E mo =
     (case mo of
        None \<Rightarrow> Inr []
      | Some m \<Rightarrow>
          (let buf = Header_WriteTo (Header m);
               buf = buf @ [MessageServerStatus E];
               buf = buf @ PutUint32 (UserCount m);
               buf = buf @ PutUint32 (FileCount m)
           in Inr (put_size buf)))"

definition ServerStatusMessage_Decode :: "('tag, 'file) env \<Rightarrow> ServerStatusMessage
    \<Rightarrow> byte list \<Rightarrow> (ServerStatusMessage \<times> error option) option" where
  "ServerStatusMessage_Decode E m data =
     (case Header_Decode data of
        Inl err \<Rightarrow> Some (m, Some err)
      | Inr header \<Rightarrow>
          let pos = HeaderLength in
          if length data < pos + unat (Size header) \<or> length data < pos + 9
          then Some (m, Some ErrShortBuffer)
          else do {
            d5 \<leftarrow> index data 5;
            if d5 \<noteq> MessageServerStatus E then Some (m, Some ErrWrongMessageType)
            else do {
              let m = m\<lparr>Header := header\<rparr>;
              let pos = pos + 1;
              b \<leftarrow> slice data pos (pos + 4);
              v \<leftarrow> Uint32 b;
              let m = m\<lparr>UserCount := v\<rparr>;
              let pos = pos + 4;
              b \<leftarrow> slice data pos (pos + 4);
              v \<leftarrow> Uint32 b;
              let m = m\<lparr>FileCount := v\<rparr>;
              Some (m, None)
            }
          })"

subsection \<open>ServerIdentMessage\<close>

record 'tag ServerIdentMessage = message +
  Hash :: "byte list"
  IP :: "32 word"
  Port :: "16 word"
  Tags :: "'tag list"

definition ServerIdentMessage_Encode :: "('tag, 'file) env \<Rightarrow> 'tag ServerIdentMessage option
    \<Rightarrow> error + byte list" where
  "ServerIdentMessage_Encode E mo =
     (case mo of
        None \<Rightarrow> Inr []
      | Some m \<Rightarrow>
          (let buf = Header_WriteTo (Header m);
               buf = buf @ [MessageServerIdent E];
               buf = buf @ Hash m;
               buf = buf @ PutUint32 (ServerIdentMessage.IP m);
               buf = buf @ PutUint16 (ServerIdentMessage.Port m);
               buf = buf @ PutUint32 (of_nat (length (ServerIdentMessage.Tags m)))
           in case write_all (Tag_WriteTo E) buf (ServerIdentMessage.Tags m) of
                Inl err \<Rightarrow> Inl err
              | Inr data \<Rightarrow> Inr (put_size data)))"

text \<open>
  The length check of this decoder reads \<^verbatim>\<open>m.Header.Size\<close>, the header of the receiver
  as it was before the call, where the seven others read \<^verbatim>\<open>header.Size\<close>.
\<close>

definition ServerIdentMessage_Decode :: "('tag, 'file) env \<Rightarrow> 'tag ServerIdentMessage
    \<Rightarrow> byte list \<Rightarrow> ('tag ServerIdentMessage \<times> error option) option" where
  "ServerIdentMessage_Decode E m data =
     (case Header_Decode data of
        Inl err \<Rightarrow> Some (m, Some err)
      | Inr header \<Rightarrow>
          let pos = HeaderLength in
          if length data < pos + unat (Size (Header m)) \<or> length data < pos + 29
          then Some (m, Some ErrShortBuffer)
          else do {
            d5 \<leftarrow> index data 5;
            if d5 \<noteq> MessageServerIdent E then Some (m, Some ErrWrongMessageType)
            else do {
              let m = m\<lparr>Header := header\<rparr>;
              let pos = pos + 1;
              src \<leftarrow> slice_from data pos;
              let (hash, n) = copy16 (Hash m) src;
              let m = m\<lparr>Hash := hash\<rparr>;
              let pos = pos + n;
              b \<leftarrow> slice data pos (pos + 4);
              v \<leftarrow> Uint32 b;
              let m = m\<lparr>ServerIdentMessage.IP := v\<rparr>;
              let pos = pos + 4;
              b \<leftarrow> slice data pos (pos + 2);
              v \<leftarrow> Uint16 b;
              let m = m\<lparr>ServerIdentMessage.Port := v\<rparr>;
              let pos = pos + 2;
              b \<leftarrow> slice data pos (pos + 4);
              tagCount \<leftarrow> Uint32 b;
              let pos = pos + 4;
              r \<leftarrow> slice_from data pos;
              let (tags, err) = read_all (ReadTag E) (unat tagCount) r (ServerIdentMessage.Tags m);
              Some (m\<lparr>ServerIdentMessage.Tags := tags\<rparr>, err)
            }
          })"

section \<open>Zero values and an instance of the parameters\<close>

text \<open>
  The zero value of each message struct, the receiver of a \<^verbatim>\<open>Decode\<close> on a freshly
  declared message.
\<close>

definition LoginMessage_zero :: "'tag LoginMessage" where
  "LoginMessage_zero =
     \<lparr>Header = \<lparr>Protocol = 0, Size = 0\<rparr>, UID = replicate 16 0, LoginMessage.ClientID = 0,
      LoginMessage.Port = 0, LoginMessage.Tags = []\<rparr>"

definition ServerMessage_zero :: ServerMessage where
  "ServerMessage_zero = \<lparr>Header = \<lparr>Protocol = 0, Size = 0\<rparr>, Messages = []\<rparr>"

definition IDChangeMessage_zero :: IDChangeMessage where
  "IDChangeMessage_zero =
     \<lparr>Header = \<lparr>Protocol = 0, Size = 0\<rparr>, IDChangeMessage.ClientID = 0, Bitmap = 0\<rparr>"

definition OfferFilesMessage_zero :: "'file OfferFilesMessage" where
  "OfferFilesMessage_zero = \<lparr>Header = \<lparr>Protocol = 0, Size = 0\<rparr>, Files = []\<rparr>"

definition GetServerListMessage_zero :: GetServerListMessage where
  "GetServerListMessage_zero = \<lparr>Header = \<lparr>Protocol = 0, Size = 0\<rparr>\<rparr>"

definition ServerListMessage_zero :: ServerListMessage where
  "ServerListMessage_zero = \<lparr>Header = \<lparr>Protocol = 0, Size = 0\<rparr>, Servers = []\<rparr>"

definition ServerStatusMessage_zero :: ServerStatusMessage where
  "ServerStatusMessage_zero =
     \<lparr>Header = \<lparr>Protocol = 0, Size = 0\<rparr>, UserCount = 0, FileCount = 0\<rparr>"

definition ServerIdentMessage_zero :: "'tag ServerIdentMessage" where
  "ServerIdentMessage_zero =
     \<lparr>Header = \<lparr>Protocol = 0, Size = 0\<rparr>, Hash = replicate 16 0, ServerIdentMessage.IP = 0,
      ServerIdentMessage.Port = 0, ServerIdentMessage.Tags = []\<rparr>"

text \<open>
  An instance of the parameters, on which the codec is evaluated at concrete inputs: the
  message type values are those of the eD2k protocol, and the element codec stands in
  for the Tag and File codecs (one length byte, then that many bytes).
\<close>

definition sample_write :: "byte list \<Rightarrow> error + byte list" where
  "sample_write b = (if length b < 256 then Inr (of_nat (length b) # b) else Inl ErrInvalidLength)"

definition sample_read :: "byte list \<Rightarrow> error + byte list \<times> byte list" where
  "sample_read r =
     (case r of
        [] \<Rightarrow> Inl ErrShortBuffer
      | n # rest \<Rightarrow>
          if length rest < unat n then Inl ErrShortBuffer
          else Inr (take (unat n) rest, drop (unat n) rest))"

definition sample_env :: "(byte list, byte list) env" where
  "sample_env =
     \<lparr>MessageLoginRequest = 0x01, MessageServerMessage = 0x38, MessageIDChange = 0x40,
      MessageOfferFiles = 0x15, MessageGetServerList = 0x14, MessageServerList = 0x32,
      MessageServerStatus = 0x34, MessageServerIdent = 0x41,
      Tag_WriteTo = sample_write, ReadTag = sample_read,
      File_WriteTo = sample_write, ReadFile = sample_read\<rparr>"

section \<open>Auxiliary facts\<close>

lemma length_PutUint16 [simp]: "length (PutUint16 v) = 2"
  by (simp add: PutUint16_def)

lemma length_PutUint32 [simp]: "length (PutUint32 v) = 4"
  by (simp add: PutUint32_def)

lemma le16_join:
  fixes v :: "16 word"
  shows "ucast (ucast v :: byte) OR push_bit 8 (ucast (ucast (drop_bit 8 v) :: byte)) = v"
    (is "?w = v")
proof (rule bit_word_eqI)
  fix n assume n: "n < LENGTH(16)"
  consider "n < 8" | "8 \<le> n" by linarith
  then show "bit ?w n = bit v n"
    using n by cases (auto simp: bit_simps)
qed

lemma le32_join:
  fixes v :: "32 word"
  shows "ucast (ucast v :: byte) OR push_bit 8 (ucast (ucast (drop_bit 8 v) :: byte))
        OR push_bit 16 (ucast (ucast (drop_bit 16 v) :: byte))
        OR push_bit 24 (ucast (ucast (drop_bit 24 v) :: byte)) = v" (is "?w = v")
proof (rule bit_word_eqI)
  fix n assume n: "n < LENGTH(32)"
  consider "n < 8" | "8 \<le> n" "n < 16" | "16 \<le> n" "n < 24" | "24 \<le> n"
    by linarith
  then show "bit ?w n = bit v n"
    using n by cases (auto simp: bit_simps)
qed

lemma Uint16_PutUint16 [simp]: "Uint16 (PutUint16 v @ r) = Some v"
  by (simp add: PutUint16_def le16_join)

lemma Uint32_PutUint32 [simp]: "Uint32 (PutUint32 v @ r) = Some v"
  by (simp add: PutUint32_def le32_join)

lemma Uint16_PutUint16' [simp]: "Uint16 (PutUint16 v) = Some v"
  using Uint16_PutUint16 [of v "[]"] by simp

lemma Uint32_PutUint32' [simp]: "Uint32 (PutUint32 v) = Some v"
  using Uint32_PutUint32 [of v "[]"] by simp

lemma Uint16_total: "2 \<le> length b \<Longrightarrow> \<exists>v. Uint16 b = Some v"
  by (cases b rule: Uint16.cases) auto

lemma Uint32_total: "4 \<le> length b \<Longrightarrow> \<exists>v. Uint32 b = Some v"
  by (cases b rule: Uint32.cases) auto

lemma Header_Decode_short: "length data < 5 \<Longrightarrow> Header_Decode data = Inl ErrShortBuffer"
  by (simp add: Header_Decode_def HeaderLength_def)

lemma Header_Decode_Inl: "Header_Decode data = Inl e \<Longrightarrow> e = ErrShortBuffer"
  by (auto simp: Header_Decode_def split: if_splits option.splits)

lemma Header_Decode_frame [simp]:
  "Header_Decode (p # PutUint32 s @ rest) = Inr \<lparr>Protocol = p, Size = s\<rparr>"
  by (simp add: Header_Decode_def HeaderLength_def )

lemma put_size_frame:
  "put_size (Header_WriteTo h @ opc # body)
     = Protocol h # PutUint32 (of_nat (Suc (length body))) @ opc # body"
  by (simp add: put_size_def Header_WriteTo_def HeaderLength_def)


lemma Header_Decode_ok: "5 \<le> length data \<Longrightarrow> \<exists>h. Header_Decode data = Inr h"
  using Uint32_total [of "take 4 (drop 1 data)"]
  by (auto simp: Header_Decode_def HeaderLength_def)

lemma Uint16_None_iff: "Uint16 b = None \<longleftrightarrow> length b < 2"
  by (cases b rule: Uint16.cases) auto

lemma Uint32_None_iff: "Uint32 b = None \<longleftrightarrow> length b < 4"
  by (cases b rule: Uint32.cases) auto

lemma read_servers_total:
  "pos + n * 6 \<le> length data \<Longrightarrow> read_servers data n pos acc \<noteq> None"
  by (induction n arbitrary: pos acc)
     (auto simp: slice_def bind_eq_None_conv Uint16_None_iff simp del: not_None_eq)

lemmas decode_defs = HeaderLength_def index_def slice_def slice_from_def Let_def copy16_def

lemma Login_total: "LoginMessage_Decode E m data \<noteq> None"
  by (auto simp: LoginMessage_Decode_def decode_defs bind_eq_None_conv Uint32_None_iff
      Uint16_None_iff simp del: not_None_eq split: sum.splits prod.splits)

lemma ServerMessage_total: "ServerMessage_Decode E m data \<noteq> None"
  by (auto simp: ServerMessage_Decode_def decode_defs bind_eq_None_conv Uint32_None_iff
      Uint16_None_iff simp del: not_None_eq split: sum.splits prod.splits)

lemma IDChange_total: "IDChangeMessage_Decode E m data \<noteq> None"
  by (auto simp: IDChangeMessage_Decode_def decode_defs bind_eq_None_conv Uint32_None_iff
      Uint16_None_iff simp del: not_None_eq split: sum.splits prod.splits)

lemma OfferFiles_total: "OfferFilesMessage_Decode E m data \<noteq> None"
  by (auto simp: OfferFilesMessage_Decode_def decode_defs bind_eq_None_conv Uint32_None_iff
      Uint16_None_iff simp del: not_None_eq split: sum.splits prod.splits)

lemma GetServerList_total: "GetServerListMessage_Decode E m data \<noteq> None"
  by (auto simp: GetServerListMessage_Decode_def decode_defs bind_eq_None_conv Uint32_None_iff
      Uint16_None_iff simp del: not_None_eq split: sum.splits prod.splits)

lemma ServerList_total: "ServerListMessage_Decode E m data \<noteq> None"
  by (auto simp: ServerListMessage_Decode_def decode_defs bind_eq_None_conv Uint32_None_iff
      Uint16_None_iff read_servers_total simp del: not_None_eq split: sum.splits prod.splits)

lemma ServerStatus_total: "ServerStatusMessage_Decode E m data \<noteq> None"
  by (auto simp: ServerStatusMessage_Decode_def decode_defs bind_eq_None_conv Uint32_None_iff
      Uint16_None_iff simp del: not_None_eq split: sum.splits prod.splits)

lemma ServerIdent_total: "ServerIdentMessage_Decode E m data \<noteq> None"
  by (auto simp: ServerIdentMessage_Decode_def decode_defs bind_eq_None_conv Uint32_None_iff
      Uint16_None_iff simp del: not_None_eq split: sum.splits prod.splits)


lemma Login_short:
  "length data < 32 \<Longrightarrow> LoginMessage_Decode E m data = Some (m, Some ErrShortBuffer)"
  by (auto simp: LoginMessage_Decode_def HeaderLength_def Let_def split: sum.splits
      dest: Header_Decode_Inl)

lemma Login_size:
  "Header_Decode data = Inr h \<Longrightarrow> length data < 5 + unat (Size h) \<Longrightarrow>
   LoginMessage_Decode E m data = Some (m, Some ErrShortBuffer)"
  by (simp add: LoginMessage_Decode_def HeaderLength_def Let_def)

lemma Login_wrong:
  "Header_Decode data = Inr h \<Longrightarrow> 5 + unat (Size h) \<le> length data \<Longrightarrow> 32 \<le> length data \<Longrightarrow>
   data ! 5 \<noteq> MessageLoginRequest E \<Longrightarrow> LoginMessage_Decode E m data = Some (m, Some ErrWrongMessageType)"
  by (simp add: LoginMessage_Decode_def HeaderLength_def Let_def index_def)

lemma ServerMessage_short:
  "length data < 8 \<Longrightarrow> ServerMessage_Decode E m data = Some (m, Some ErrShortBuffer)"
  by (auto simp: ServerMessage_Decode_def HeaderLength_def Let_def split: sum.splits
      dest: Header_Decode_Inl)

lemma ServerMessage_size:
  "Header_Decode data = Inr h \<Longrightarrow> length data < 5 + unat (Size h) \<Longrightarrow>
   ServerMessage_Decode E m data = Some (m, Some ErrShortBuffer)"
  by (simp add: ServerMessage_Decode_def HeaderLength_def Let_def)

lemma ServerMessage_wrong:
  "Header_Decode data = Inr h \<Longrightarrow> 5 + unat (Size h) \<le> length data \<Longrightarrow> 8 \<le> length data \<Longrightarrow>
   data ! 5 \<noteq> MessageServerMessage E \<Longrightarrow> ServerMessage_Decode E m data = Some (m, Some ErrWrongMessageType)"
  by (simp add: ServerMessage_Decode_def HeaderLength_def Let_def index_def)

lemma IDChange_short:
  "length data < 14 \<Longrightarrow> IDChangeMessage_Decode E m data = Some (m, Some ErrShortBuffer)"
  by (auto simp: IDChangeMessage_Decode_def HeaderLength_def Let_def split: sum.splits
      dest: Header_Decode_Inl)

lemma IDChange_size:
  "Header_Decode data = Inr h \<Longrightarrow> length data < 5 + unat (Size h) \<Longrightarrow>
   IDChangeMessage_Decode E m data = Some (m, Some ErrShortBuffer)"
  by (simp add: IDChangeMessage_Decode_def HeaderLength_def Let_def)

lemma IDChange_wrong:
  "Header_Decode data = Inr h \<Longrightarrow> 5 + unat (Size h) \<le> length data \<Longrightarrow> 14 \<le> length data \<Longrightarrow>
   data ! 5 \<noteq> MessageIDChange E \<Longrightarrow> IDChangeMessage_Decode E m data = Some (m, Some ErrWrongMessageType)"
  by (simp add: IDChangeMessage_Decode_def HeaderLength_def Let_def index_def)

lemma OfferFiles_short:
  "length data < 10 \<Longrightarrow> OfferFilesMessage_Decode E m data = Some (m, Some ErrShortBuffer)"
  by (auto simp: OfferFilesMessage_Decode_def HeaderLength_def Let_def split: sum.splits
      dest: Header_Decode_Inl)

lemma OfferFiles_size:
  "Header_Decode data = Inr h \<Longrightarrow> length data < 5 + unat (Size h) \<Longrightarrow>
   OfferFilesMessage_Decode E m data = Some (m, Some ErrShortBuffer)"
  by (simp add: OfferFilesMessage_Decode_def HeaderLength_def Let_def)

lemma OfferFiles_wrong:
  "Header_Decode data = Inr h \<Longrightarrow> 5 + unat (Size h) \<le> length data \<Longrightarrow> 10 \<le> length data \<Longrightarrow>
   data ! 5 \<noteq> MessageOfferFiles E \<Longrightarrow> OfferFilesMessage_Decode E m data = Some (m, Some ErrWrongMessageType)"
  by (simp add: OfferFilesMessage_Decode_def HeaderLength_def Let_def index_def)

lemma GetServerList_short:
  "length data < 6 \<Longrightarrow> GetServerListMessage_Decode E m data = Some (m, Some ErrShortBuffer)"
  by (auto simp: GetServerListMessage_Decode_def HeaderLength_def Let_def split: sum.splits
      dest: Header_Decode_Inl)

lemma GetServerList_size:
  "Header_Decode data = Inr h \<Longrightarrow> length data < 5 + unat (Size h) \<Longrightarrow>
   GetServerListMessage_Decode E m data = Some (m, Some ErrShortBuffer)"
  by (simp add: GetServerListMessage_Decode_def HeaderLength_def Let_def)

lemma GetServerList_wrong:
  "Header_Decode data = Inr h \<Longrightarrow> 5 + unat (Size h) \<le> length data \<Longrightarrow> 6 \<le> length data \<Longrightarrow>
   data ! 5 \<noteq> MessageGetServerList E \<Longrightarrow> GetServerListMessage_Decode E m data = Some (m, Some ErrWrongMessageType)"
  by (simp add: GetServerListMessage_Decode_def HeaderLength_def Let_def index_def)

lemma ServerList_short:
  "length data < 7 \<Longrightarrow> ServerListMessage_Decode E m data = Some (m, Some ErrShortBuffer)"
  by (auto simp: ServerListMessage_Decode_def HeaderLength_def Let_def split: sum.splits
      dest: Header_Decode_Inl)

lemma ServerList_size:
  "Header_Decode data = Inr h \<Longrightarrow> length data < 5 + unat (Size h) \<Longrightarrow>
   ServerListMessage_Decode E m data = Some (m, Some ErrShortBuffer)"
  by (simp add: ServerListMessage_Decode_def HeaderLength_def Let_def)

lemma ServerList_wrong:
  "Header_Decode data = Inr h \<Longrightarrow> 5 + unat (Size h) \<le> length data \<Longrightarrow> 7 \<le> length data \<Longrightarrow>
   data ! 5 \<noteq> MessageServerList E \<Longrightarrow> ServerListMessage_Decode E m data = Some (m, Some ErrWrongMessageType)"
  by (simp add: ServerListMessage_Decode_def HeaderLength_def Let_def index_def)

lemma ServerStatus_short:
  "length data < 14 \<Longrightarrow> ServerStatusMessage_Decode E m data = Some (m, Some ErrShortBuffer)"
  by (auto simp: ServerStatusMessage_Decode_def HeaderLength_def Let_def split: sum.splits
      dest: Header_Decode_Inl)

lemma ServerStatus_size:
  "Header_Decode data = Inr h \<Longrightarrow> length data < 5 + unat (Size h) \<Longrightarrow>
   ServerStatusMessage_Decode E m data = Some (m, Some ErrShortBuffer)"
  by (simp add: ServerStatusMessage_Decode_def HeaderLength_def Let_def)

lemma ServerStatus_wrong:
  "Header_Decode data = Inr h \<Longrightarrow> 5 + unat (Size h) \<le> length data \<Longrightarrow> 14 \<le> length data \<Longrightarrow>
   data ! 5 \<noteq> MessageServerStatus E \<Longrightarrow> ServerStatusMessage_Decode E m data = Some (m, Some ErrWrongMessageType)"
  by (simp add: ServerStatusMessage_Decode_def HeaderLength_def Let_def index_def)

lemma ServerIdent_short:
  "length data < 34 \<Longrightarrow> ServerIdentMessage_Decode E m data = Some (m, Some ErrShortBuffer)"
  by (auto simp: ServerIdentMessage_Decode_def HeaderLength_def Let_def split: sum.splits
      dest: Header_Decode_Inl)

lemma ServerIdent_size:
  "Header_Decode data = Inr h \<Longrightarrow> length data < 5 + unat (Size (Header m)) \<Longrightarrow>
   ServerIdentMessage_Decode E m data = Some (m, Some ErrShortBuffer)"
  by (simp add: ServerIdentMessage_Decode_def HeaderLength_def Let_def)

lemma ServerIdent_wrong:
  "Header_Decode data = Inr h \<Longrightarrow> 5 + unat (Size (Header m)) \<le> length data \<Longrightarrow> 34 \<le> length data \<Longrightarrow>
   data ! 5 \<noteq> MessageServerIdent E \<Longrightarrow> ServerIdentMessage_Decode E m data = Some (m, Some ErrWrongMessageType)"
  by (simp add: ServerIdentMessage_Decode_def HeaderLength_def Let_def index_def)

lemma unat_of_nat_le32: "unat (of_nat k :: 32 word) \<le> k"
  by (simp add: unat_of_nat)

lemma unat_of_nat_id32: "k < 2 ^ 32 \<Longrightarrow> unat (of_nat k :: 32 word) = k"
  by (simp add: unat_of_nat)

lemma write_all_read_all:
  assumes "\<forall>x\<in>set xs. \<forall>b rest. w x = Inr b \<longrightarrow> rd (b @ rest) = Inr (x, rest)"
    and "write_all w buf xs = Inr data"
  shows "\<exists>tail. data = buf @ tail \<and>
           (\<forall>acc. read_all rd (length xs) tail acc = (acc @ xs, None))"
  using assms
proof (induction xs arbitrary: buf data)
  case Nil
  then show ?case by simp
next
  case (Cons x xs)
  from Cons.prems(2) obtain b where b: "w x = Inr b" and rest: "write_all w (buf @ b) xs = Inr data"
    by (auto split: sum.splits)
  from Cons.IH [OF _ rest] Cons.prems(1) obtain tail where
    tail: "data = (buf @ b) @ tail" "\<forall>acc. read_all rd (length xs) tail acc = (acc @ xs, None)"
    by auto
  from Cons.prems(1) b have "rd (b @ tail) = Inr (x, tail)" by simp
  with tail show ?case by (intro exI [of _ "b @ tail"]) simp
qed

lemma write_all_prefix:
  "write_all w buf xs = Inr data \<Longrightarrow> \<exists>tail. data = buf @ tail"
proof (induction xs arbitrary: buf)
  case Nil
  then show ?case by simp
next
  case (Cons x xs)
  from Cons.prems obtain b where "write_all w (buf @ b) xs = Inr data"
    by (auto split: sum.splits)
  from Cons.IH [OF this] show ?case by auto
qed

lemma Login_roundtrip_gen:
  assumes enc: "LoginMessage_Encode E (Some m) = Inr data"
    and uid: "length (UID m) = 16"
    and n: "length (LoginMessage.Tags m) < 2 ^ 32"
    and codec: "\<forall>t\<in>set (LoginMessage.Tags m). \<forall>b rest.
                  Tag_WriteTo E t = Inr b \<longrightarrow> ReadTag E (b @ rest) = Inr (t, rest)"
  shows "LoginMessage_Decode E r data =
     Some (r\<lparr>Header := \<lparr>Protocol = Protocol (Header m), Size = of_nat (length data - 5)\<rparr>,
             UID := UID m @ drop 16 (UID r),
             LoginMessage.ClientID := LoginMessage.ClientID m,
             LoginMessage.Port := LoginMessage.Port m,
             LoginMessage.Tags := LoginMessage.Tags r @ LoginMessage.Tags m\<rparr>, None)"
proof -
  define buf where "buf = Header_WriteTo (Header m) @ MessageLoginRequest E # (UID m
      @ PutUint32 (LoginMessage.ClientID m) @ PutUint16 (LoginMessage.Port m)
      @ PutUint32 (of_nat (length (LoginMessage.Tags m))))"
  from enc obtain d0 where d0: "write_all (Tag_WriteTo E) buf (LoginMessage.Tags m) = Inr d0"
    and data: "data = put_size d0"
    by (auto simp: LoginMessage_Encode_def Let_def buf_def UID_Bytes_def split: sum.splits)
  from write_all_read_all [OF codec d0] obtain tail where
    tail: "d0 = buf @ tail"
      "\<forall>acc. read_all (ReadTag E) (length (LoginMessage.Tags m)) tail acc
          = (acc @ LoginMessage.Tags m, None)"
    by blast
  have data': "data = Protocol (Header m) # PutUint32 (of_nat (27 + length tail))
      @ MessageLoginRequest E # UID m @ PutUint32 (LoginMessage.ClientID m)
      @ PutUint16 (LoginMessage.Port m) @ PutUint32 (of_nat (length (LoginMessage.Tags m))) @ tail"
    using uid by (simp add: data tail(1) buf_def put_size_frame)
  show ?thesis
    using uid n tail(2) unat_of_nat_le32 [of "27 + length tail"]
    by (simp add: data' LoginMessage_Decode_def decode_defs nth_append unat_of_nat_id32)
qed


lemma unat_of_nat_id16: "k < 65536 \<Longrightarrow> unat (of_nat k :: 16 word) = k"
  by (simp add: unat_of_nat)

lemma unat_of_nat_id8: "k < 256 \<Longrightarrow> unat (of_nat k :: byte) = k"
  by (simp add: unat_of_nat)

lemma ServerMessage_decode_encode:
  assumes enc: "ServerMessage_Encode E (Some m) = Inr data"
  shows "ServerMessage_Decode E r data =
     Some (r\<lparr>Header := \<lparr>Protocol = Protocol (Header m), Size = of_nat (length data - 5)\<rparr>,
             Messages := take (length (Messages m) mod 65536) (Messages m)\<rparr>, None)"
proof -
  have data: "data = Protocol (Header m) # PutUint32 (of_nat (3 + length (Messages m)))
      @ MessageServerMessage E # PutUint16 (of_nat (length (Messages m))) @ Messages m"
    using enc by (auto simp: ServerMessage_Encode_def Let_def put_size_frame)
  have le: "length (Messages m) mod 65536 \<le> length (Messages m)"
    by simp
  show ?thesis
    using unat_of_nat_le32 [of "3 + length (Messages m)"] le
    by (simp add: data ServerMessage_Decode_def decode_defs nth_append unat_of_nat del: mod_less_eq_dividend)
qed

lemma OfferFiles_roundtrip_gen:
  assumes enc: "OfferFilesMessage_Encode E (Some m) = Inr data"
    and n: "length (Files m) < 2 ^ 32"
    and codec: "\<forall>f\<in>set (Files m). \<forall>b rest.
                  File_WriteTo E f = Inr b \<longrightarrow> ReadFile E (b @ rest) = Inr (f, rest)"
  shows "OfferFilesMessage_Decode E r data =
     Some (r\<lparr>Header := \<lparr>Protocol = Protocol (Header m), Size = of_nat (length data - 5)\<rparr>,
             Files := Files r @ Files m\<rparr>, None)"
proof -
  define buf where "buf = Header_WriteTo (Header m) @ MessageOfferFiles E #
      PutUint32 (of_nat (length (Files m)))"
  from enc obtain d0 where d0: "write_all (File_WriteTo E) buf (Files m) = Inr d0"
    and data: "data = put_size d0"
    by (auto simp: OfferFilesMessage_Encode_def Let_def buf_def split: sum.splits)
  from write_all_read_all [OF codec d0] obtain tail where
    tail: "d0 = buf @ tail"
      "\<forall>acc. read_all (ReadFile E) (length (Files m)) tail acc = (acc @ Files m, None)"
    by blast
  have data': "data = Protocol (Header m) # PutUint32 (of_nat (5 + length tail))
      @ MessageOfferFiles E # PutUint32 (of_nat (length (Files m))) @ tail"
    by (simp add: data tail(1) buf_def put_size_frame)
  show ?thesis
    using n tail(2) unat_of_nat_le32 [of "5 + length tail"]
    by (simp add: data' OfferFilesMessage_Decode_def decode_defs nth_append unat_of_nat_id32)
qed

lemma GetServerList_roundtrip_gen:
  assumes enc: "GetServerListMessage_Encode E (Some m) = Inr data"
  shows "GetServerListMessage_Decode E r data =
     Some (r\<lparr>Header := \<lparr>Protocol = Protocol (Header m), Size = 1\<rparr>\<rparr>, None)"
  using enc
  by (auto simp: GetServerListMessage_Encode_def GetServerListMessage_Decode_def put_size_frame
      decode_defs nth_append)

lemma ServerStatus_roundtrip_gen:
  assumes enc: "ServerStatusMessage_Encode E (Some m) = Inr data"
  shows "ServerStatusMessage_Decode E r data =
     Some (r\<lparr>Header := \<lparr>Protocol = Protocol (Header m), Size = 9\<rparr>,
             UserCount := UserCount m, FileCount := FileCount m\<rparr>, None)"
  using enc
  by (auto simp: ServerStatusMessage_Encode_def ServerStatusMessage_Decode_def put_size_frame
      decode_defs nth_append)

lemma uint_of_int_id16: "0 \<le> p \<Longrightarrow> p < 65536 \<Longrightarrow> uint (of_int p :: 16 word) = p"
  by (simp add: uint_word_of_int)

lemma write_servers_read_servers:
  assumes "\<forall>s\<in>set servers. \<exists>a. s = Some a \<and> length (TCPAddr.IP a) = 4 \<and> 0 \<le> TCPAddr.Port a
             \<and> TCPAddr.Port a < 65536 \<and> Zone a = []"
  shows "\<exists>tail. (\<forall>buf. write_servers buf servers = buf @ tail) \<and>
           length tail = 6 * length servers \<and>
           (\<forall>pre acc. read_servers (pre @ tail) (length servers) (length pre) acc
              = Some (acc @ servers))"
  using assms
proof (induction servers)
  case Nil
  then show ?case by simp
next
  case (Cons s servers)
  then obtain a where a: "s = Some a" "length (TCPAddr.IP a) = 4" "0 \<le> TCPAddr.Port a"
      "TCPAddr.Port a < 65536" "Zone a = []"
    by auto
  from Cons obtain tail where tail: "\<forall>buf. write_servers buf servers = buf @ tail"
      "length tail = 6 * length servers"
      "\<forall>pre acc. read_servers (pre @ tail) (length servers) (length pre) acc = Some (acc @ servers)"
    by auto
  define six where "six = TCPAddr.IP a @ PutUint16 (of_int (TCPAddr.Port a))"
  have six: "length six = 6" by (simp add: six_def a)
  have w: "\<forall>buf. write_servers buf (s # servers) = buf @ six @ tail"
    by (simp add: a To4_def six_def tail(1))
  have rec: "\<lparr>TCPAddr.IP = TCPAddr.IP a, Port = TCPAddr.Port a, Zone = []\<rparr> = a"
    using a(5) by simp
  have r: "read_servers (pre @ six @ tail) (Suc (length servers)) (length pre) acc
        = Some (acc @ s # servers)" for pre acc
    using tail(3) [rule_format, of "pre @ six" "acc @ [s]"] a
    by (simp add: slice_def six_def uint_of_int_id16 rec)
  show ?case
    using w r six tail(2) by (intro exI [of _ "six @ tail"]) simp
qed


lemma ServerList_roundtrip_gen:
  assumes enc: "ServerListMessage_Encode E (Some m) = Inr data"
    and n: "length (Servers m) < 256"
    and dom: "\<forall>s\<in>set (Servers m). \<exists>a. s = Some a \<and> length (TCPAddr.IP a) = 4
               \<and> 0 \<le> TCPAddr.Port a \<and> TCPAddr.Port a < 65536 \<and> Zone a = []"
  shows "ServerListMessage_Decode E r data =
     Some (r\<lparr>Header := \<lparr>Protocol = Protocol (Header m), Size = of_nat (length data - 5)\<rparr>,
             Servers := Servers r @ Servers m\<rparr>, None)"
proof -
  from write_servers_read_servers [OF dom] obtain tail where
    tail: "\<forall>buf. write_servers buf (Servers m) = buf @ tail"
      "length tail = 6 * length (Servers m)"
      "\<forall>pre acc. read_servers (pre @ tail) (length (Servers m)) (length pre) acc
          = Some (acc @ Servers m)"
    by blast
  define pre where "pre = Protocol (Header m) # PutUint32 (of_nat (2 + length tail))
      @ [MessageServerList E, of_nat (length (Servers m))]"
  have data: "data = pre @ tail"
    using enc by (auto simp: ServerListMessage_Encode_def Let_def tail(1) put_size_frame pre_def)
  have pre: "length pre = 7" by (simp add: pre_def)
  have rd: "read_servers data (length (Servers m)) 7 (Servers r) = Some (Servers r @ Servers m)"
    using tail(3) [rule_format, of pre "Servers r"] by (simp add: data pre)
  have hd: "Header_Decode data = Inr \<lparr>Protocol = Protocol (Header m),
      Size = of_nat (2 + length tail)\<rparr>"
    by (simp add: data pre_def)
  have ix: "data ! 5 = MessageServerList E" "data ! 6 = of_nat (length (Servers m))"
    by (simp_all add: data pre_def nth_append)
  have len: "length data = 7 + length tail" by (simp add: data pre)
  show ?thesis
    using unat_of_nat_le32 [of "2 + length tail"] n rd
    by (simp add: ServerListMessage_Decode_def hd ix len decode_defs unat_of_nat_id8 tail(2))
qed

lemma ServerIdent_roundtrip_gen:
  assumes enc: "ServerIdentMessage_Encode E (Some m) = Inr data"
    and hash: "length (Hash m) = 16"
    and n: "length (ServerIdentMessage.Tags m) < 2 ^ 32"
    and codec: "\<forall>t\<in>set (ServerIdentMessage.Tags m). \<forall>b rest.
                  Tag_WriteTo E t = Inr b \<longrightarrow> ReadTag E (b @ rest) = Inr (t, rest)"
    and stale: "5 + unat (Size (Header r)) \<le> length data"
    and long: "34 \<le> length data"
  shows "ServerIdentMessage_Decode E r data =
     Some (r\<lparr>Header := \<lparr>Protocol = Protocol (Header m), Size = of_nat (length data - 5)\<rparr>,
             Hash := Hash m @ drop 16 (Hash r),
             ServerIdentMessage.IP := ServerIdentMessage.IP m,
             ServerIdentMessage.Port := ServerIdentMessage.Port m,
             ServerIdentMessage.Tags := ServerIdentMessage.Tags r @ ServerIdentMessage.Tags m\<rparr>,
           None)"
proof -
  define buf where "buf = Header_WriteTo (Header m) @ MessageServerIdent E # (Hash m
      @ PutUint32 (ServerIdentMessage.IP m) @ PutUint16 (ServerIdentMessage.Port m)
      @ PutUint32 (of_nat (length (ServerIdentMessage.Tags m))))"
  from enc obtain d0 where d0: "write_all (Tag_WriteTo E) buf (ServerIdentMessage.Tags m) = Inr d0"
    and data: "data = put_size d0"
    by (auto simp: ServerIdentMessage_Encode_def Let_def buf_def split: sum.splits)
  from write_all_read_all [OF codec d0] obtain tail where
    tail: "d0 = buf @ tail"
      "\<forall>acc. read_all (ReadTag E) (length (ServerIdentMessage.Tags m)) tail acc
          = (acc @ ServerIdentMessage.Tags m, None)"
    by blast
  have data': "data = Protocol (Header m) # PutUint32 (of_nat (27 + length tail))
      @ MessageServerIdent E # Hash m @ PutUint32 (ServerIdentMessage.IP m)
      @ PutUint16 (ServerIdentMessage.Port m)
      @ PutUint32 (of_nat (length (ServerIdentMessage.Tags m))) @ tail"
    using hash by (simp add: data tail(1) buf_def put_size_frame)
  show ?thesis
    using hash n tail(2) stale long
    by (simp add: data' ServerIdentMessage_Decode_def decode_defs nth_append unat_of_nat_id32)
qed

lemma IDChange_roundtrip_gen:
  assumes enc: "IDChangeMessage_Encode E (Some m) = Inr data"
  shows "IDChangeMessage_Decode E r data =
     Some (r\<lparr>Header := \<lparr>Protocol = Protocol (Header m), Size = 9\<rparr>,
             IDChangeMessage.ClientID := IDChangeMessage.ClientID m, Bitmap := Bitmap m\<rparr>, None)"
  using enc
  by (auto simp: IDChangeMessage_Encode_def IDChangeMessage_Decode_def put_size_frame
      decode_defs nth_append)

lemma Login_early:
  assumes "length data < HeaderLength + 27 \<or> (\<exists>h. Header_Decode data = Inr h \<and> length data < HeaderLength + unat (Size h))
      \<or> data ! 5 \<noteq> MessageLoginRequest E"
  shows "\<exists>e. LoginMessage_Decode E m data = Some (m, Some e)"
proof (cases "length data < HeaderLength + 27")
  case True
  then show ?thesis using Login_short [of data E m] by (simp add: HeaderLength_def)
next
  case False
  then obtain h where h: "Header_Decode data = Inr h"
    using Header_Decode_ok [of data] by (auto simp: HeaderLength_def)
  show ?thesis
  proof (cases "length data < HeaderLength + unat (Size h)")
    case True
    then show ?thesis using Login_size [OF h, where E = E and m = m] by (simp add: HeaderLength_def)
  next
    case False
    with \<open>\<not> length data < HeaderLength + 27\<close> assms h
    have "data ! 5 \<noteq> MessageLoginRequest E" by auto
    with False \<open>\<not> length data < HeaderLength + 27\<close> show ?thesis
      using Login_wrong [OF h, where E = E and m = m] by (simp add: HeaderLength_def)
  qed
qed

lemma ServerMessage_early:
  assumes "length data < HeaderLength + 3 \<or> (\<exists>h. Header_Decode data = Inr h \<and> length data < HeaderLength + unat (Size h))
      \<or> data ! 5 \<noteq> MessageServerMessage E"
  shows "\<exists>e. ServerMessage_Decode E m data = Some (m, Some e)"
proof (cases "length data < HeaderLength + 3")
  case True
  then show ?thesis using ServerMessage_short [of data E m] by (simp add: HeaderLength_def)
next
  case False
  then obtain h where h: "Header_Decode data = Inr h"
    using Header_Decode_ok [of data] by (auto simp: HeaderLength_def)
  show ?thesis
  proof (cases "length data < HeaderLength + unat (Size h)")
    case True
    then show ?thesis using ServerMessage_size [OF h, where E = E and m = m] by (simp add: HeaderLength_def)
  next
    case False
    with \<open>\<not> length data < HeaderLength + 3\<close> assms h
    have "data ! 5 \<noteq> MessageServerMessage E" by auto
    with False \<open>\<not> length data < HeaderLength + 3\<close> show ?thesis
      using ServerMessage_wrong [OF h, where E = E and m = m] by (simp add: HeaderLength_def)
  qed
qed

lemma IDChange_early:
  assumes "length data < HeaderLength + 9 \<or> (\<exists>h. Header_Decode data = Inr h \<and> length data < HeaderLength + unat (Size h))
      \<or> data ! 5 \<noteq> MessageIDChange E"
  shows "\<exists>e. IDChangeMessage_Decode E m data = Some (m, Some e)"
proof (cases "length data < HeaderLength + 9")
  case True
  then show ?thesis using IDChange_short [of data E m] by (simp add: HeaderLength_def)
next
  case False
  then obtain h where h: "Header_Decode data = Inr h"
    using Header_Decode_ok [of data] by (auto simp: HeaderLength_def)
  show ?thesis
  proof (cases "length data < HeaderLength + unat (Size h)")
    case True
    then show ?thesis using IDChange_size [OF h, where E = E and m = m] by (simp add: HeaderLength_def)
  next
    case False
    with \<open>\<not> length data < HeaderLength + 9\<close> assms h
    have "data ! 5 \<noteq> MessageIDChange E" by auto
    with False \<open>\<not> length data < HeaderLength + 9\<close> show ?thesis
      using IDChange_wrong [OF h, where E = E and m = m] by (simp add: HeaderLength_def)
  qed
qed

lemma IDChange_error:
  "IDChangeMessage_Decode E m data = Some (m', Some e) \<Longrightarrow> m' = m"
  by (auto simp: IDChangeMessage_Decode_def Let_def bind_eq_Some_conv case_prod_beta
      split: sum.splits if_splits)

lemma OfferFiles_early:
  assumes "length data < HeaderLength + 5 \<or> (\<exists>h. Header_Decode data = Inr h \<and> length data < HeaderLength + unat (Size h))
      \<or> data ! 5 \<noteq> MessageOfferFiles E"
  shows "\<exists>e. OfferFilesMessage_Decode E m data = Some (m, Some e)"
proof (cases "length data < HeaderLength + 5")
  case True
  then show ?thesis using OfferFiles_short [of data E m] by (simp add: HeaderLength_def)
next
  case False
  then obtain h where h: "Header_Decode data = Inr h"
    using Header_Decode_ok [of data] by (auto simp: HeaderLength_def)
  show ?thesis
  proof (cases "length data < HeaderLength + unat (Size h)")
    case True
    then show ?thesis using OfferFiles_size [OF h, where E = E and m = m] by (simp add: HeaderLength_def)
  next
    case False
    with \<open>\<not> length data < HeaderLength + 5\<close> assms h
    have "data ! 5 \<noteq> MessageOfferFiles E" by auto
    with False \<open>\<not> length data < HeaderLength + 5\<close> show ?thesis
      using OfferFiles_wrong [OF h, where E = E and m = m] by (simp add: HeaderLength_def)
  qed
qed

lemma GetServerList_early:
  assumes "length data < HeaderLength + 1 \<or> (\<exists>h. Header_Decode data = Inr h \<and> length data < HeaderLength + unat (Size h))
      \<or> data ! 5 \<noteq> MessageGetServerList E"
  shows "\<exists>e. GetServerListMessage_Decode E m data = Some (m, Some e)"
proof (cases "length data < HeaderLength + 1")
  case True
  then show ?thesis using GetServerList_short [of data E m] by (simp add: HeaderLength_def)
next
  case False
  then obtain h where h: "Header_Decode data = Inr h"
    using Header_Decode_ok [of data] by (auto simp: HeaderLength_def)
  show ?thesis
  proof (cases "length data < HeaderLength + unat (Size h)")
    case True
    then show ?thesis using GetServerList_size [OF h, where E = E and m = m] by (simp add: HeaderLength_def)
  next
    case False
    with \<open>\<not> length data < HeaderLength + 1\<close> assms h
    have "data ! 5 \<noteq> MessageGetServerList E" by auto
    with False \<open>\<not> length data < HeaderLength + 1\<close> show ?thesis
      using GetServerList_wrong [OF h, where E = E and m = m] by (simp add: HeaderLength_def)
  qed
qed

lemma GetServerList_error:
  "GetServerListMessage_Decode E m data = Some (m', Some e) \<Longrightarrow> m' = m"
  by (auto simp: GetServerListMessage_Decode_def Let_def bind_eq_Some_conv case_prod_beta
      split: sum.splits if_splits)

lemma ServerList_early:
  assumes "length data < HeaderLength + 2 \<or> (\<exists>h. Header_Decode data = Inr h \<and> length data < HeaderLength + unat (Size h))
      \<or> data ! 5 \<noteq> MessageServerList E"
  shows "\<exists>e. ServerListMessage_Decode E m data = Some (m, Some e)"
proof (cases "length data < HeaderLength + 2")
  case True
  then show ?thesis using ServerList_short [of data E m] by (simp add: HeaderLength_def)
next
  case False
  then obtain h where h: "Header_Decode data = Inr h"
    using Header_Decode_ok [of data] by (auto simp: HeaderLength_def)
  show ?thesis
  proof (cases "length data < HeaderLength + unat (Size h)")
    case True
    then show ?thesis using ServerList_size [OF h, where E = E and m = m] by (simp add: HeaderLength_def)
  next
    case False
    with \<open>\<not> length data < HeaderLength + 2\<close> assms h
    have "data ! 5 \<noteq> MessageServerList E" by auto
    with False \<open>\<not> length data < HeaderLength + 2\<close> show ?thesis
      using ServerList_wrong [OF h, where E = E and m = m] by (simp add: HeaderLength_def)
  qed
qed

lemma ServerStatus_early:
  assumes "length data < HeaderLength + 9 \<or> (\<exists>h. Header_Decode data = Inr h \<and> length data < HeaderLength + unat (Size h))
      \<or> data ! 5 \<noteq> MessageServerStatus E"
  shows "\<exists>e. ServerStatusMessage_Decode E m data = Some (m, Some e)"
proof (cases "length data < HeaderLength + 9")
  case True
  then show ?thesis using ServerStatus_short [of data E m] by (simp add: HeaderLength_def)
next
  case False
  then obtain h where h: "Header_Decode data = Inr h"
    using Header_Decode_ok [of data] by (auto simp: HeaderLength_def)
  show ?thesis
  proof (cases "length data < HeaderLength + unat (Size h)")
    case True
    then show ?thesis using ServerStatus_size [OF h, where E = E and m = m] by (simp add: HeaderLength_def)
  next
    case False
    with \<open>\<not> length data < HeaderLength + 9\<close> assms h
    have "data ! 5 \<noteq> MessageServerStatus E" by auto
    with False \<open>\<not> length data < HeaderLength + 9\<close> show ?thesis
      using ServerStatus_wrong [OF h, where E = E and m = m] by (simp add: HeaderLength_def)
  qed
qed

lemma ServerStatus_error:
  "ServerStatusMessage_Decode E m data = Some (m', Some e) \<Longrightarrow> m' = m"
  by (auto simp: ServerStatusMessage_Decode_def Let_def bind_eq_Some_conv case_prod_beta
      split: sum.splits if_splits)

lemma ServerIdent_early:
  assumes "length data < HeaderLength + 29 \<or> length data < HeaderLength + unat (Size (Header m))
      \<or> data ! 5 \<noteq> MessageServerIdent E"
  shows "\<exists>e. ServerIdentMessage_Decode E m data = Some (m, Some e)"
proof (cases "length data < HeaderLength + 29")
  case True
  then show ?thesis using ServerIdent_short [of data E m] by (simp add: HeaderLength_def)
next
  case False
  then obtain h where h: "Header_Decode data = Inr h"
    using Header_Decode_ok [of data] by (auto simp: HeaderLength_def)
  show ?thesis
  proof (cases "length data < HeaderLength + unat (Size (Header m))")
    case True
    then show ?thesis using ServerIdent_size [OF h, where E = E and m = m] by (simp add: HeaderLength_def)
  next
    case False
    with \<open>\<not> length data < HeaderLength + 29\<close> assms h
    have "data ! 5 \<noteq> MessageServerIdent E" by auto
    with False \<open>\<not> length data < HeaderLength + 29\<close> show ?thesis
      using ServerIdent_wrong [OF h, where E = E and m = m] by (simp add: HeaderLength_def)
  qed
qed

lemma put_size_header:
  "Header_Decode (put_size (Header_WriteTo h @ opc # body))
     = Inr \<lparr>Protocol = Protocol h, Size = of_nat (Suc (length body))\<rparr> \<and>
   length (put_size (Header_WriteTo h @ opc # body)) = 6 + length body"
  by (simp add: put_size_frame)

lemma write_servers_prefix: "\<exists>tail. write_servers buf xs = buf @ tail"
proof (induction xs arbitrary: buf)
  case Nil
  then show ?case by simp
next
  case (Cons x xs)
  show ?case
    using Cons [of "buf @ To4 (TCPAddr.IP (case x of None \<Rightarrow> \<lparr>TCPAddr.IP = IPv4zero, Port = 0, Zone = []\<rparr>
        | Some a \<Rightarrow> a)) @ PutUint16 (of_int (TCPAddr.Port (case x of
          None \<Rightarrow> \<lparr>TCPAddr.IP = IPv4zero, Port = 0, Zone = []\<rparr> | Some a \<Rightarrow> a)))"]
    by (auto simp: Let_def)
qed

lemma encoded_header:
  assumes "data = put_size (Header_WriteTo h @ opc # body)"
  shows "Header_Decode data = Inr \<lparr>Protocol = Protocol h, Size = of_nat (length data - HeaderLength)\<rparr>
     \<and> HeaderLength < length data"
  using assms put_size_header [of h opc body] by (simp add: HeaderLength_def)

lemma Login_Encode_header:
  assumes "LoginMessage_Encode E (Some m) = Inr data"
  shows "Header_Decode data
      = Inr \<lparr>Protocol = Protocol (Header m), Size = of_nat (length data - HeaderLength)\<rparr>
     \<and> HeaderLength < length data"
proof -
  from assms obtain d0 buf where d0: "write_all (Tag_WriteTo E) buf (LoginMessage.Tags m) = Inr d0"
    and data: "data = put_size d0"
    and buf: "buf = Header_WriteTo (Header m) @ MessageLoginRequest E # (UID_Bytes (UID m)
      @ PutUint32 (LoginMessage.ClientID m) @ PutUint16 (LoginMessage.Port m)
      @ PutUint32 (of_nat (length (LoginMessage.Tags m))))"
    by (auto simp: LoginMessage_Encode_def Let_def split: sum.splits)
  from write_all_prefix [OF d0] obtain tail where "d0 = buf @ tail" by blast
  then show ?thesis
    using encoded_header [of data "Header m" "MessageLoginRequest E"
        "UID_Bytes (UID m) @ PutUint32 (LoginMessage.ClientID m) @ PutUint16 (LoginMessage.Port m)
          @ PutUint32 (of_nat (length (LoginMessage.Tags m))) @ tail"]
    by (simp add: data buf)
qed

lemma ServerMessage_Encode_header:
  assumes "ServerMessage_Encode E (Some m) = Inr data"
  shows "Header_Decode data
      = Inr \<lparr>Protocol = Protocol (Header m), Size = of_nat (length data - HeaderLength)\<rparr>
     \<and> HeaderLength < length data"
  using assms encoded_header [of data "Header m" "MessageServerMessage E"
      "PutUint16 (of_nat (length (Messages m))) @ Messages m"]
  by (auto simp: ServerMessage_Encode_def Let_def)

lemma IDChange_Encode_header:
  assumes "IDChangeMessage_Encode E (Some m) = Inr data"
  shows "Header_Decode data
      = Inr \<lparr>Protocol = Protocol (Header m), Size = of_nat (length data - HeaderLength)\<rparr>
     \<and> HeaderLength < length data"
  using assms encoded_header [of data "Header m" "MessageIDChange E"
      "PutUint32 (IDChangeMessage.ClientID m) @ PutUint32 (Bitmap m)"]
  by (auto simp: IDChangeMessage_Encode_def Let_def)

lemma OfferFiles_Encode_header:
  assumes "OfferFilesMessage_Encode E (Some m) = Inr data"
  shows "Header_Decode data
      = Inr \<lparr>Protocol = Protocol (Header m), Size = of_nat (length data - HeaderLength)\<rparr>
     \<and> HeaderLength < length data"
proof -
  from assms obtain d0 buf where d0: "write_all (File_WriteTo E) buf (Files m) = Inr d0"
    and data: "data = put_size d0"
    and buf: "buf = Header_WriteTo (Header m) @ MessageOfferFiles E #
      PutUint32 (of_nat (length (Files m)))"
    by (auto simp: OfferFilesMessage_Encode_def Let_def split: sum.splits)
  from write_all_prefix [OF d0] obtain tail where "d0 = buf @ tail" by blast
  then show ?thesis
    using encoded_header [of data "Header m" "MessageOfferFiles E"
        "PutUint32 (of_nat (length (Files m))) @ tail"]
    by (simp add: data buf)
qed

lemma GetServerList_Encode_header:
  assumes "GetServerListMessage_Encode E (Some m) = Inr data"
  shows "Header_Decode data
      = Inr \<lparr>Protocol = Protocol (Header m), Size = of_nat (length data - HeaderLength)\<rparr>
     \<and> HeaderLength < length data"
  using assms encoded_header [of data "Header m" "MessageGetServerList E" "[]"]
  by (auto simp: GetServerListMessage_Encode_def Let_def)

lemma ServerList_Encode_header:
  assumes "ServerListMessage_Encode E (Some m) = Inr data"
  shows "Header_Decode data
      = Inr \<lparr>Protocol = Protocol (Header m), Size = of_nat (length data - HeaderLength)\<rparr>
     \<and> HeaderLength < length data"
proof -
  obtain tail where "write_servers (Header_WriteTo (Header m) @ [MessageServerList E]
      @ [of_nat (length (Servers m))]) (Servers m)
    = (Header_WriteTo (Header m) @ [MessageServerList E] @ [of_nat (length (Servers m))]) @ tail"
    using write_servers_prefix by blast
  then show ?thesis
    using assms encoded_header [of data "Header m" "MessageServerList E"
        "of_nat (length (Servers m)) # tail"]
    by (auto simp: ServerListMessage_Encode_def Let_def)
qed

lemma ServerStatus_Encode_header:
  assumes "ServerStatusMessage_Encode E (Some m) = Inr data"
  shows "Header_Decode data
      = Inr \<lparr>Protocol = Protocol (Header m), Size = of_nat (length data - HeaderLength)\<rparr>
     \<and> HeaderLength < length data"
  using assms encoded_header [of data "Header m" "MessageServerStatus E"
      "PutUint32 (UserCount m) @ PutUint32 (FileCount m)"]
  by (auto simp: ServerStatusMessage_Encode_def Let_def)

lemma ServerIdent_Encode_header:
  assumes "ServerIdentMessage_Encode E (Some m) = Inr data"
  shows "Header_Decode data
      = Inr \<lparr>Protocol = Protocol (Header m), Size = of_nat (length data - HeaderLength)\<rparr>
     \<and> HeaderLength < length data"
proof -
  from assms obtain d0 buf where d0: "write_all (Tag_WriteTo E) buf (ServerIdentMessage.Tags m) = Inr d0"
    and data: "data = put_size d0"
    and buf: "buf = Header_WriteTo (Header m) @ MessageServerIdent E # (Hash m
      @ PutUint32 (ServerIdentMessage.IP m) @ PutUint16 (ServerIdentMessage.Port m)
      @ PutUint32 (of_nat (length (ServerIdentMessage.Tags m))))"
    by (auto simp: ServerIdentMessage_Encode_def Let_def split: sum.splits)
  from write_all_prefix [OF d0] obtain tail where "d0 = buf @ tail" by blast
  then show ?thesis
    using encoded_header [of data "Header m" "MessageServerIdent E"
        "Hash m @ PutUint32 (ServerIdentMessage.IP m) @ PutUint16 (ServerIdentMessage.Port m)
          @ PutUint32 (of_nat (length (ServerIdentMessage.Tags m))) @ tail"]
    by (simp add: data buf)
qed

lemma stored_size:
  assumes "Header_Decode data = Inr \<lparr>Protocol = p, Size = of_nat k\<rparr> \<and> HeaderLength < length data"
  shows "\<exists>h. Header_Decode data = Inr h \<and> unat (Size h) = k mod 2 ^ 32 \<and>
           (k < 2 ^ 32 \<longrightarrow> unat (Size h) = k)"
  using assms by (simp add: unat_of_nat)

lemma To4_IPv4zero: "To4 IPv4zero = [0, 0, 0, 0]"
  by (simp add: To4_def IPv4zero_def nth_append)

lemma write_servers_concat:
  "write_servers buf xs = buf @ concat (map (\<lambda>s :: TCPAddr option. case s of
       None \<Rightarrow> [0, 0, 0, 0, 0, 0]
     | Some a \<Rightarrow> To4 (TCPAddr.IP a) @ PutUint16 (of_int (TCPAddr.Port a))) xs)"
  by (induction xs arbitrary: buf)
     (auto simp: Let_def To4_IPv4zero PutUint16_def split: option.splits)

lemma ServerMessage_Encode_shape:
  "ServerMessage_Encode E (Some m) = Inr data \<Longrightarrow>
   data = Protocol (Header m) # PutUint32 (of_nat (3 + length (Messages m)))
      @ MessageServerMessage E # PutUint16 (of_nat (length (Messages m))) @ Messages m"
  by (auto simp: ServerMessage_Encode_def Let_def put_size_frame)

lemma ServerMessage_prefix_written:
  assumes "ServerMessage_Encode E (Some m) = Inr data"
  shows "Option.bind (slice data 6 8) Uint16 = Some (of_nat (length (Messages m)))"
  by (simp add: ServerMessage_Encode_shape [OF assms] slice_def)

lemma take_mod_eq_iff:
  "take (length xs mod 65536) xs = xs \<longleftrightarrow> length xs < 65536"
proof
  assume "take (length xs mod 65536) xs = xs"
  then have "length (take (length xs mod 65536) xs) = length xs" by simp
  then have "length xs mod 65536 = length xs" by simp
  then show "length xs < 65536"
    by (metis mod_less_divisor zero_less_numeral)
next
  assume "length xs < 65536"
  then show "take (length xs mod 65536) xs = xs" by simp
qed

lemma ServerMessage_Decode_reads:
  assumes "ServerMessage_Decode E r buf = Some (r', None)"
  shows "\<exists>w. Option.bind (slice buf 6 8) Uint16 = Some w \<and>
           Messages r' = take (unat w) (drop 8 buf) \<and> length (Messages r') = unat w"
  using assms
  by (auto simp: ServerMessage_Decode_def decode_defs bind_eq_Some_conv
      split: sum.splits if_splits)

lemma read_all_prefix:
  "read_all rd n r acc = (xs, err) \<Longrightarrow> \<exists>new. xs = acc @ new"
proof (induction n arbitrary: r acc)
  case 0
  then show ?case by simp
next
  case (Suc n)
  show ?case
  proof (cases "rd r")
    case (Inl e)
    with Suc.prems show ?thesis by simp
  next
    case (Inr p)
    obtain x r' where p: "p = (x, r')" by (cases p)
    from Suc.prems Inr p have "read_all rd n r' (acc @ [x]) = (xs, err)" by simp
    from Suc.IH [OF this] show ?thesis by auto
  qed
qed

lemma ServerMessage_error_exact:
  assumes "ServerMessage_Decode E m data = Some (m', Some e)"
  shows "m' = m \<or> (\<exists>h. Header_Decode data = Inr h \<and> m' = m\<lparr>Header := h\<rparr>)"
  using assms
  by (auto simp: ServerMessage_Decode_def Let_def bind_eq_Some_conv
      split: sum.splits if_splits)

lemma ServerList_error_exact:
  assumes "ServerListMessage_Decode E m data = Some (m', Some e)"
  shows "m' = m \<or> (\<exists>h. Header_Decode data = Inr h \<and> m' = m\<lparr>Header := h\<rparr>)"
  using assms
  by (auto simp: ServerListMessage_Decode_def Let_def bind_eq_Some_conv
      split: sum.splits if_splits)

lemma OfferFiles_error_exact:
  assumes "OfferFilesMessage_Decode E m data = Some (m', Some e)"
  shows "m' = m \<or>
     (\<exists>h n new. Header_Decode data = Inr h \<and>
        Option.bind (slice data 6 10) Uint32 = Some n \<and>
        read_all (ReadFile E) (unat n) (drop 10 data) (Files m) = (Files m @ new, Some e) \<and>
        m' = m\<lparr>Header := h, Files := Files m @ new\<rparr>)"
proof (cases "m' = m")
  case True
  then show ?thesis by simp
next
  case False
  with assms obtain h n where h: "Header_Decode data = Inr h"
    and n: "Option.bind (slice data 6 10) Uint32 = Some n"
    and e: "snd (read_all (ReadFile E) (unat n) (drop 10 data) (Files m)) = Some e"
    and m': "m' = m\<lparr>Header := h,
        Files := fst (read_all (ReadFile E) (unat n) (drop 10 data) (Files m))\<rparr>"
    by (auto simp: OfferFilesMessage_Decode_def decode_defs bind_eq_Some_conv case_prod_beta
        split: sum.splits if_splits)
  define files where "files = fst (read_all (ReadFile E) (unat n) (drop 10 data) (Files m))"
  have rd: "read_all (ReadFile E) (unat n) (drop 10 data) (Files m) = (files, Some e)"
    using e by (simp add: files_def prod_eq_iff)
  note m' = m' [folded files_def]
  from read_all_prefix [OF rd] obtain new where "files = Files m @ new" by blast
  with h n rd m' show ?thesis by blast
qed

lemma Login_error_exact:
  assumes "LoginMessage_Decode E m data = Some (m', Some e)"
  shows "m' = m \<or>
     (\<exists>h cid port n new. Header_Decode data = Inr h \<and>
        Option.bind (slice data 22 26) Uint32 = Some cid \<and>
        Option.bind (slice data 26 28) Uint16 = Some port \<and>
        Option.bind (slice data 28 32) Uint32 = Some n \<and>
        read_all (ReadTag E) (unat n) (drop 32 data) (LoginMessage.Tags m)
          = (LoginMessage.Tags m @ new, Some e) \<and>
        m' = m\<lparr>Header := h, UID := take 16 (drop 6 data) @ drop 16 (UID m),
               LoginMessage.ClientID := cid, LoginMessage.Port := port,
               LoginMessage.Tags := LoginMessage.Tags m @ new\<rparr>)"
proof (cases "m' = m")
  case True
  then show ?thesis by simp
next
  case False
  with assms obtain h cid port n where h: "Header_Decode data = Inr h"
    and cid: "Option.bind (slice data 22 26) Uint32 = Some cid"
    and port: "Option.bind (slice data 26 28) Uint16 = Some port"
    and n: "Option.bind (slice data 28 32) Uint32 = Some n"
    and e: "snd (read_all (ReadTag E) (unat n) (drop 32 data) (LoginMessage.Tags m)) = Some e"
    and m': "m' = m\<lparr>Header := h, UID := take 16 (drop 6 data) @ drop 16 (UID m),
               LoginMessage.ClientID := cid, LoginMessage.Port := port,
               LoginMessage.Tags := fst (read_all (ReadTag E) (unat n) (drop 32 data) (LoginMessage.Tags m))\<rparr>"
    by (auto simp: LoginMessage_Decode_def decode_defs bind_eq_Some_conv case_prod_beta
        split: sum.splits if_splits)
  define tags where "tags = fst (read_all (ReadTag E) (unat n) (drop 32 data) (LoginMessage.Tags m))"
  have rd: "read_all (ReadTag E) (unat n) (drop 32 data) (LoginMessage.Tags m) = (tags, Some e)"
    using e by (simp add: tags_def prod_eq_iff)
  note m' = m' [folded tags_def]
  from read_all_prefix [OF rd] obtain new where "tags = LoginMessage.Tags m @ new" by blast
  with h cid port n rd m' show ?thesis by blast
qed

lemma ServerIdent_error_exact:
  assumes "ServerIdentMessage_Decode E m data = Some (m', Some e)"
  shows "m' = m \<or>
     (\<exists>h ip port n new. Header_Decode data = Inr h \<and>
        Option.bind (slice data 22 26) Uint32 = Some ip \<and>
        Option.bind (slice data 26 28) Uint16 = Some port \<and>
        Option.bind (slice data 28 32) Uint32 = Some n \<and>
        read_all (ReadTag E) (unat n) (drop 32 data) (ServerIdentMessage.Tags m)
          = (ServerIdentMessage.Tags m @ new, Some e) \<and>
        m' = m\<lparr>Header := h, Hash := take 16 (drop 6 data) @ drop 16 (Hash m),
               ServerIdentMessage.IP := ip, ServerIdentMessage.Port := port,
               ServerIdentMessage.Tags := ServerIdentMessage.Tags m @ new\<rparr>)"
proof (cases "m' = m")
  case True
  then show ?thesis by simp
next
  case False
  with assms obtain h ip port n where h: "Header_Decode data = Inr h"
    and ip: "Option.bind (slice data 22 26) Uint32 = Some ip"
    and port: "Option.bind (slice data 26 28) Uint16 = Some port"
    and n: "Option.bind (slice data 28 32) Uint32 = Some n"
    and e: "snd (read_all (ReadTag E) (unat n) (drop 32 data) (ServerIdentMessage.Tags m)) = Some e"
    and m': "m' = m\<lparr>Header := h, Hash := take 16 (drop 6 data) @ drop 16 (Hash m),
               ServerIdentMessage.IP := ip, ServerIdentMessage.Port := port,
               ServerIdentMessage.Tags := fst (read_all (ReadTag E) (unat n) (drop 32 data) (ServerIdentMessage.Tags m))\<rparr>"
    by (auto simp: ServerIdentMessage_Decode_def decode_defs bind_eq_Some_conv case_prod_beta
        split: sum.splits if_splits)
  define tags where "tags = fst (read_all (ReadTag E) (unat n) (drop 32 data) (ServerIdentMessage.Tags m))"
  have rd: "read_all (ReadTag E) (unat n) (drop 32 data) (ServerIdentMessage.Tags m) = (tags, Some e)"
    using e by (simp add: tags_def prod_eq_iff)
  note m' = m' [folded tags_def]
  from read_all_prefix [OF rd] obtain new where "tags = ServerIdentMessage.Tags m @ new"
    by blast
  with h ip port n rd m' show ?thesis by blast
qed

section \<open>The claims\<close>


text \<open>
  C1. The round-trip law: decoding the bytes that \<^verbatim>\<open>Encode\<close> produces for a message
  yields the message. The code breaks it for \<^verbatim>\<open>ServerIdentMessage\<close>: a message with no
  tags encodes to 32 bytes (header, type, hash, IP, port, tag count), and the decoder's
  length check asks for \<^verbatim>\<open>pos+29\<close>, that is 34 bytes, where \<^verbatim>\<open>LoginMessage.Decode\<close>
  asks for \<^verbatim>\<open>pos+1+16+4+2+4\<close> on the same layout. The decoder returns
  \<^verbatim>\<open>ErrShortBuffer\<close> on the encoder's own output.
\<close>

theorem ServerIdent_roundtrip_fails:
  "ServerIdentMessage_Encode sample_env
       (Some \<lparr>Header = \<lparr>Protocol = 0xE3, Size = 27\<rparr>, Hash = replicate 16 0x11,
              ServerIdentMessage.IP = 0x0100007F, ServerIdentMessage.Port = 0x1235,
              ServerIdentMessage.Tags = []\<rparr>)
     = Inr ([0xE3, 27, 0, 0, 0, 0x41] @ replicate 16 0x11 @ [0x7F, 0, 0, 1, 0x35, 0x12, 0, 0, 0, 0]) \<and>
   ServerIdentMessage_Decode sample_env ServerIdentMessage_zero
       ([0xE3, 27, 0, 0, 0, 0x41] @ replicate 16 0x11 @ [0x7F, 0, 0, 1, 0x35, 0x12, 0, 0, 0, 0])
     = Some (ServerIdentMessage_zero, Some ErrShortBuffer)"
  by (simp add: ServerIdentMessage_Encode_def ServerIdentMessage_Decode_def Header_Decode_def
      Header_WriteTo_def put_size_def PutUint32_def PutUint16_def decode_defs sample_env_def)

text \<open>
  C2, as stated: if \<^verbatim>\<open>Decode\<close> returns an error, the receiver is left unchanged. It
  fails on the code. \<^verbatim>\<open>ServerMessage.Decode\<close> on a buffer whose text is shorter than
  its two-byte length prefix says returns \<^verbatim>\<open>ErrShortBuffer\<close> after it has assigned the
  header of the buffer to the receiver.
\<close>

theorem Decode_not_all_or_nothing:
  "ServerMessage_Decode sample_env ServerMessage_zero [0xE3, 3, 0, 0, 0, 0x38, 10, 0]
     = Some (\<lparr>Header = \<lparr>Protocol = 0xE3, Size = 3\<rparr>, Messages = []\<rparr>, Some ErrShortBuffer) \<and>
   \<lparr>Header = \<lparr>Protocol = 0xE3, Size = 3\<rparr>, Messages = []\<rparr> \<noteq> ServerMessage_zero"
  by (simp add: ServerMessage_Decode_def Header_Decode_def decode_defs sample_env_def
      ServerMessage_zero_def)

text \<open>
  C2, amended. Every decoder returns an error and leaves the receiver unchanged when the
  buffer fails the first length check or the type check; these are all the failures of
  \<^verbatim>\<open>IDChangeMessage\<close>, \<^verbatim>\<open>GetServerListMessage\<close> and \<^verbatim>\<open>ServerStatusMessage\<close>. The other
  five decoders assign to the receiver in place, and when one of them returns an error
  the receiver is either unchanged or exactly this: for \<^verbatim>\<open>ServerMessage\<close> and
  \<^verbatim>\<open>ServerListMessage\<close>, the receiver with its header replaced by the header of the
  buffer; for \<^verbatim>\<open>OfferFilesMessage\<close>, that and the files read before the failing one
  appended to the receiver's files; for \<^verbatim>\<open>LoginMessage\<close> and \<^verbatim>\<open>ServerIdentMessage\<close>, the
  header, the 16 bytes, the two numbers read from offsets 22 and 26 of the buffer, and
  the tags read before the failing one appended to the receiver's tags. For these three
  variants the error is the one on which the loop over the element reader ended.
\<close>

theorem Decode_failure_receiver:
  "(length data < HeaderLength + 27 \<or> (\<exists>h. Header_Decode data = Inr h \<and> length data < HeaderLength + unat (Size h))
      \<or> data ! 5 \<noteq> MessageLoginRequest E \<longrightarrow>
      (\<exists>e. LoginMessage_Decode E ml data = Some (ml, Some e))) \<and>
   (LoginMessage_Decode E ml data = Some (ml', Some eml) \<longrightarrow>
      ml' = ml \<or>
      (\<exists>h cid port n new. Header_Decode data = Inr h \<and>
         Option.bind (slice data 22 26) Uint32 = Some cid \<and>
         Option.bind (slice data 26 28) Uint16 = Some port \<and>
         Option.bind (slice data 28 32) Uint32 = Some n \<and>
         read_all (ReadTag E) (unat n) (drop 32 data) (LoginMessage.Tags ml)
           = (LoginMessage.Tags ml @ new, Some eml) \<and>
         ml' = ml\<lparr>Header := h, UID := take 16 (drop 6 data) @ drop 16 (UID ml),
                  LoginMessage.ClientID := cid, LoginMessage.Port := port,
                  LoginMessage.Tags := LoginMessage.Tags ml @ new\<rparr>)) \<and>
   (length data < HeaderLength + 3 \<or> (\<exists>h. Header_Decode data = Inr h \<and> length data < HeaderLength + unat (Size h))
      \<or> data ! 5 \<noteq> MessageServerMessage E \<longrightarrow>
      (\<exists>e. ServerMessage_Decode E msm data = Some (msm, Some e))) \<and>
   (ServerMessage_Decode E msm data = Some (msm', Some emsm) \<longrightarrow>
      msm' = msm \<or> (\<exists>h. Header_Decode data = Inr h \<and> msm' = msm\<lparr>Header := h\<rparr>)) \<and>
   (length data < HeaderLength + 9 \<or> (\<exists>h. Header_Decode data = Inr h \<and> length data < HeaderLength + unat (Size h))
      \<or> data ! 5 \<noteq> MessageIDChange E \<longrightarrow>
      (\<exists>e. IDChangeMessage_Decode E mid data = Some (mid, Some e))) \<and>
   (IDChangeMessage_Decode E mid data = Some (mid', Some emid) \<longrightarrow> mid' = mid) \<and>
   (length data < HeaderLength + 5 \<or> (\<exists>h. Header_Decode data = Inr h \<and> length data < HeaderLength + unat (Size h))
      \<or> data ! 5 \<noteq> MessageOfferFiles E \<longrightarrow>
      (\<exists>e. OfferFilesMessage_Decode E mof data = Some (mof, Some e))) \<and>
   (OfferFilesMessage_Decode E mof data = Some (mof', Some emof) \<longrightarrow>
      mof' = mof \<or>
      (\<exists>h n new. Header_Decode data = Inr h \<and>
         Option.bind (slice data 6 10) Uint32 = Some n \<and>
         read_all (ReadFile E) (unat n) (drop 10 data) (Files mof) = (Files mof @ new, Some emof) \<and>
         mof' = mof\<lparr>Header := h, Files := Files mof @ new\<rparr>)) \<and>
   (length data < HeaderLength + 1 \<or> (\<exists>h. Header_Decode data = Inr h \<and> length data < HeaderLength + unat (Size h))
      \<or> data ! 5 \<noteq> MessageGetServerList E \<longrightarrow>
      (\<exists>e. GetServerListMessage_Decode E mgs data = Some (mgs, Some e))) \<and>
   (GetServerListMessage_Decode E mgs data = Some (mgs', Some emgs) \<longrightarrow> mgs' = mgs) \<and>
   (length data < HeaderLength + 2 \<or> (\<exists>h. Header_Decode data = Inr h \<and> length data < HeaderLength + unat (Size h))
      \<or> data ! 5 \<noteq> MessageServerList E \<longrightarrow>
      (\<exists>e. ServerListMessage_Decode E msl data = Some (msl, Some e))) \<and>
   (ServerListMessage_Decode E msl data = Some (msl', Some emsl) \<longrightarrow>
      msl' = msl \<or> (\<exists>h. Header_Decode data = Inr h \<and> msl' = msl\<lparr>Header := h\<rparr>)) \<and>
   (length data < HeaderLength + 9 \<or> (\<exists>h. Header_Decode data = Inr h \<and> length data < HeaderLength + unat (Size h))
      \<or> data ! 5 \<noteq> MessageServerStatus E \<longrightarrow>
      (\<exists>e. ServerStatusMessage_Decode E mss data = Some (mss, Some e))) \<and>
   (ServerStatusMessage_Decode E mss data = Some (mss', Some emss) \<longrightarrow> mss' = mss) \<and>
   (length data < HeaderLength + 29 \<or> length data < HeaderLength + unat (Size (Header msi))
      \<or> data ! 5 \<noteq> MessageServerIdent E \<longrightarrow>
      (\<exists>e. ServerIdentMessage_Decode E msi data = Some (msi, Some e))) \<and>
   (ServerIdentMessage_Decode E msi data = Some (msi', Some emsi) \<longrightarrow>
      msi' = msi \<or>
      (\<exists>h ip port n new. Header_Decode data = Inr h \<and>
         Option.bind (slice data 22 26) Uint32 = Some ip \<and>
         Option.bind (slice data 26 28) Uint16 = Some port \<and>
         Option.bind (slice data 28 32) Uint32 = Some n \<and>
         read_all (ReadTag E) (unat n) (drop 32 data) (ServerIdentMessage.Tags msi)
           = (ServerIdentMessage.Tags msi @ new, Some emsi) \<and>
         msi' = msi\<lparr>Header := h, Hash := take 16 (drop 6 data) @ drop 16 (Hash msi),
                  ServerIdentMessage.IP := ip, ServerIdentMessage.Port := port,
                  ServerIdentMessage.Tags := ServerIdentMessage.Tags msi @ new\<rparr>))"
  by (intro conjI impI)
     (erule Login_early Login_error_exact ServerMessage_early ServerMessage_error_exact
        IDChange_early IDChange_error OfferFiles_early OfferFiles_error_exact
        GetServerList_early GetServerList_error ServerList_early ServerList_error_exact
        ServerStatus_early ServerStatus_error ServerIdent_early ServerIdent_error_exact)+

theorem Decode_failure_receiver_witness:
  "(\<exists>e. LoginMessage_Decode sample_env (LoginMessage_zero :: byte list LoginMessage) [0xE3]
       = Some (LoginMessage_zero, Some e)) \<and>
   (\<exists>e. ServerMessage_Decode sample_env ServerMessage_zero [0xE3]
       = Some (ServerMessage_zero, Some e)) \<and>
   (\<exists>e. IDChangeMessage_Decode sample_env IDChangeMessage_zero [0xE3]
       = Some (IDChangeMessage_zero, Some e)) \<and>
   (\<exists>e. OfferFilesMessage_Decode sample_env (OfferFilesMessage_zero :: byte list OfferFilesMessage) [0xE3]
       = Some (OfferFilesMessage_zero, Some e)) \<and>
   (\<exists>e. GetServerListMessage_Decode sample_env GetServerListMessage_zero [0xE3]
       = Some (GetServerListMessage_zero, Some e)) \<and>
   (\<exists>e. ServerListMessage_Decode sample_env ServerListMessage_zero [0xE3]
       = Some (ServerListMessage_zero, Some e)) \<and>
   (\<exists>e. ServerStatusMessage_Decode sample_env ServerStatusMessage_zero [0xE3]
       = Some (ServerStatusMessage_zero, Some e)) \<and>
   (\<exists>e. ServerIdentMessage_Decode sample_env (ServerIdentMessage_zero :: byte list ServerIdentMessage) [0xE3]
       = Some (ServerIdentMessage_zero, Some e)) \<and>
   (\<exists>h. Header_Decode [0xE3, 3, 0, 0, 0, 0x38, 10, 0] = Inr h \<and>
      \<lparr>Header = \<lparr>Protocol = 0xE3, Size = 3\<rparr>, Messages = []\<rparr> = ServerMessage_zero\<lparr>Header := h\<rparr>) \<and>
   (\<exists>h cid port n new.
      Header_Decode ([0xE3, 29, 0, 0, 0, 0x01] @ replicate 16 0x11 @ [4, 3, 2, 1, 0x35, 0x12, 2, 0, 0, 0, 1, 0xAA]) = Inr h \<and>
      Option.bind (slice ([0xE3, 29, 0, 0, 0, 0x01] @ replicate 16 0x11 @ [4, 3, 2, 1, 0x35, 0x12, 2, 0, 0, 0, 1, 0xAA]) 22 26) Uint32 = Some cid \<and>
      Option.bind (slice ([0xE3, 29, 0, 0, 0, 0x01] @ replicate 16 0x11 @ [4, 3, 2, 1, 0x35, 0x12, 2, 0, 0, 0, 1, 0xAA]) 26 28) Uint16 = Some port \<and>
      Option.bind (slice ([0xE3, 29, 0, 0, 0, 0x01] @ replicate 16 0x11 @ [4, 3, 2, 1, 0x35, 0x12, 2, 0, 0, 0, 1, 0xAA]) 28 32) Uint32 = Some n \<and>
      read_all (ReadTag sample_env) (unat n) (drop 32 ([0xE3, 29, 0, 0, 0, 0x01] @ replicate 16 0x11 @ [4, 3, 2, 1, 0x35, 0x12, 2, 0, 0, 0, 1, 0xAA])) (LoginMessage.Tags LoginMessage_zero)
        = (LoginMessage.Tags LoginMessage_zero @ new, Some ErrShortBuffer) \<and>
      \<lparr>Header = \<lparr>Protocol = 0xE3, Size = 29\<rparr>, UID = replicate 16 0x11,
        LoginMessage.ClientID = 0x01020304, LoginMessage.Port = 0x1235,
        LoginMessage.Tags = [[0xAA :: byte]]\<rparr>
        = LoginMessage_zero\<lparr>Header := h,
            UID := take 16 (drop 6 ([0xE3, 29, 0, 0, 0, 0x01] @ replicate 16 0x11 @ [4, 3, 2, 1, 0x35, 0x12, 2, 0, 0, 0, 1, 0xAA])) @ drop 16 (UID (LoginMessage_zero :: byte list LoginMessage)),
            LoginMessage.ClientID := cid, LoginMessage.Port := port,
            LoginMessage.Tags := LoginMessage.Tags LoginMessage_zero @ new\<rparr>)"
proof -
  have late: "ServerMessage_Decode sample_env ServerMessage_zero [0xE3, 3, 0, 0, 0, 0x38, 10, 0]
      = Some (\<lparr>Header = \<lparr>Protocol = 0xE3, Size = 3\<rparr>, Messages = []\<rparr>, Some ErrShortBuffer)"
    by (simp add: ServerMessage_Decode_def Header_Decode_def decode_defs sample_env_def
        ServerMessage_zero_def)
  have changed: "\<lparr>Header = \<lparr>Protocol = 0xE3, Size = 3\<rparr>, Messages = []\<rparr> \<noteq> ServerMessage_zero"
    by (simp add: ServerMessage_zero_def)
  have rd: "read_all sample_read 2 [1, 0xAA] [] = ([[0xAA]], Some ErrShortBuffer)"
    by (simp add: numeral_2_eq_2 sample_read_def)
  have tag_late: "LoginMessage_Decode sample_env LoginMessage_zero ([0xE3, 29, 0, 0, 0, 0x01] @ replicate 16 0x11 @ [4, 3, 2, 1, 0x35, 0x12, 2, 0, 0, 0, 1, 0xAA])
      = Some (\<lparr>Header = \<lparr>Protocol = 0xE3, Size = 29\<rparr>, UID = replicate 16 0x11,
        LoginMessage.ClientID = 0x01020304, LoginMessage.Port = 0x1235,
        LoginMessage.Tags = [[0xAA :: byte]]\<rparr>, Some ErrShortBuffer)"
    by (simp add: LoginMessage_Decode_def Header_Decode_def decode_defs sample_env_def
        LoginMessage_zero_def rd)
  have tag_changed: "\<lparr>Header = \<lparr>Protocol = 0xE3, Size = 29\<rparr>, UID = replicate 16 0x11,
        LoginMessage.ClientID = 0x01020304, LoginMessage.Port = 0x1235,
        LoginMessage.Tags = [[0xAA :: byte]]\<rparr> \<noteq> LoginMessage_zero"
    by (simp add: LoginMessage_zero_def)
  have early: "(\<exists>e. LoginMessage_Decode sample_env (LoginMessage_zero :: byte list LoginMessage) [0xE3]
       = Some (LoginMessage_zero, Some e)) \<and>
      (\<exists>e. ServerMessage_Decode sample_env ServerMessage_zero [0xE3]
       = Some (ServerMessage_zero, Some e)) \<and>
      (\<exists>e. IDChangeMessage_Decode sample_env IDChangeMessage_zero [0xE3]
       = Some (IDChangeMessage_zero, Some e)) \<and>
      (\<exists>e. OfferFilesMessage_Decode sample_env (OfferFilesMessage_zero :: byte list OfferFilesMessage) [0xE3]
       = Some (OfferFilesMessage_zero, Some e)) \<and>
      (\<exists>e. GetServerListMessage_Decode sample_env GetServerListMessage_zero [0xE3]
       = Some (GetServerListMessage_zero, Some e)) \<and>
      (\<exists>e. ServerListMessage_Decode sample_env ServerListMessage_zero [0xE3]
       = Some (ServerListMessage_zero, Some e)) \<and>
      (\<exists>e. ServerStatusMessage_Decode sample_env ServerStatusMessage_zero [0xE3]
       = Some (ServerStatusMessage_zero, Some e)) \<and>
      (\<exists>e. ServerIdentMessage_Decode sample_env (ServerIdentMessage_zero :: byte list ServerIdentMessage) [0xE3]
       = Some (ServerIdentMessage_zero, Some e))"
    using Decode_failure_receiver [where E = sample_env and data = "[0xE3]"
        and ml = LoginMessage_zero and ml' = LoginMessage_zero and eml = ErrShortBuffer
        and msm = ServerMessage_zero and msm' = ServerMessage_zero and emsm = ErrShortBuffer
        and mid = IDChangeMessage_zero and mid' = IDChangeMessage_zero and emid = ErrShortBuffer
        and mof = OfferFilesMessage_zero and mof' = OfferFilesMessage_zero and emof = ErrShortBuffer
        and mgs = GetServerListMessage_zero and mgs' = GetServerListMessage_zero and emgs = ErrShortBuffer
        and msl = ServerListMessage_zero and msl' = ServerListMessage_zero and emsl = ErrShortBuffer
        and mss = ServerStatusMessage_zero and mss' = ServerStatusMessage_zero and emss = ErrShortBuffer
        and msi = ServerIdentMessage_zero and msi' = ServerIdentMessage_zero and emsi = ErrShortBuffer]
      Login_short [of "[0xE3]" sample_env LoginMessage_zero]
      ServerMessage_short [of "[0xE3]" sample_env ServerMessage_zero]
      IDChange_short [of "[0xE3]" sample_env IDChangeMessage_zero]
      OfferFiles_short [of "[0xE3]" sample_env OfferFilesMessage_zero]
      GetServerList_short [of "[0xE3]" sample_env GetServerListMessage_zero]
      ServerList_short [of "[0xE3]" sample_env ServerListMessage_zero]
      ServerStatus_short [of "[0xE3]" sample_env ServerStatusMessage_zero]
      ServerIdent_short [of "[0xE3]" sample_env ServerIdentMessage_zero]
    by (simp add: HeaderLength_def)
  have p2: "\<exists>h. Header_Decode [0xE3, 3, 0, 0, 0, 0x38, 10, 0] = Inr h \<and>
      \<lparr>Header = \<lparr>Protocol = 0xE3, Size = 3\<rparr>, Messages = []\<rparr> = ServerMessage_zero\<lparr>Header := h\<rparr>"
    (is ?late)
  proof -
    from Decode_failure_receiver [where E = sample_env and data = "[0xE3, 3, 0, 0, 0, 0x38, 10, 0]"
        and msm = ServerMessage_zero and msm' = "\<lparr>Header = \<lparr>Protocol = 0xE3, Size = 3\<rparr>, Messages = []\<rparr>" and emsm = ErrShortBuffer,
        THEN conjunct2, THEN conjunct2, THEN conjunct2, THEN conjunct1]
      late
    have "\<lparr>Header = \<lparr>Protocol = 0xE3, Size = 3\<rparr>, Messages = []\<rparr> = ServerMessage_zero \<or> ?late"
      by (rule mp)
    then show ?thesis
    proof
      assume "\<lparr>Header = \<lparr>Protocol = 0xE3, Size = 3\<rparr>, Messages = []\<rparr> = ServerMessage_zero"
      with changed show ?thesis by (rule notE)
    next
      assume ?late
      then show ?thesis .
    qed
  qed
  have p3: "\<exists>h cid port n new.
      Header_Decode ([0xE3, 29, 0, 0, 0, 0x01] @ replicate 16 0x11 @ [4, 3, 2, 1, 0x35, 0x12, 2, 0, 0, 0, 1, 0xAA]) = Inr h \<and>
      Option.bind (slice ([0xE3, 29, 0, 0, 0, 0x01] @ replicate 16 0x11 @ [4, 3, 2, 1, 0x35, 0x12, 2, 0, 0, 0, 1, 0xAA]) 22 26) Uint32 = Some cid \<and>
      Option.bind (slice ([0xE3, 29, 0, 0, 0, 0x01] @ replicate 16 0x11 @ [4, 3, 2, 1, 0x35, 0x12, 2, 0, 0, 0, 1, 0xAA]) 26 28) Uint16 = Some port \<and>
      Option.bind (slice ([0xE3, 29, 0, 0, 0, 0x01] @ replicate 16 0x11 @ [4, 3, 2, 1, 0x35, 0x12, 2, 0, 0, 0, 1, 0xAA]) 28 32) Uint32 = Some n \<and>
      read_all (ReadTag sample_env) (unat n) (drop 32 ([0xE3, 29, 0, 0, 0, 0x01] @ replicate 16 0x11 @ [4, 3, 2, 1, 0x35, 0x12, 2, 0, 0, 0, 1, 0xAA])) (LoginMessage.Tags LoginMessage_zero)
        = (LoginMessage.Tags LoginMessage_zero @ new, Some ErrShortBuffer) \<and>
      \<lparr>Header = \<lparr>Protocol = 0xE3, Size = 29\<rparr>, UID = replicate 16 0x11,
        LoginMessage.ClientID = 0x01020304, LoginMessage.Port = 0x1235,
        LoginMessage.Tags = [[0xAA :: byte]]\<rparr>
        = LoginMessage_zero\<lparr>Header := h,
            UID := take 16 (drop 6 ([0xE3, 29, 0, 0, 0, 0x01] @ replicate 16 0x11 @ [4, 3, 2, 1, 0x35, 0x12, 2, 0, 0, 0, 1, 0xAA])) @ drop 16 (UID (LoginMessage_zero :: byte list LoginMessage)),
            LoginMessage.ClientID := cid, LoginMessage.Port := port,
            LoginMessage.Tags := LoginMessage.Tags LoginMessage_zero @ new\<rparr>"
    (is ?late)
  proof -
    from Decode_failure_receiver [where E = sample_env and data = "([0xE3, 29, 0, 0, 0, 0x01] @ replicate 16 0x11 @ [4, 3, 2, 1, 0x35, 0x12, 2, 0, 0, 0, 1, 0xAA])"
        and ml = LoginMessage_zero and ml' = "\<lparr>Header = \<lparr>Protocol = 0xE3, Size = 29\<rparr>, UID = replicate 16 0x11,
        LoginMessage.ClientID = 0x01020304, LoginMessage.Port = 0x1235,
        LoginMessage.Tags = [[0xAA :: byte]]\<rparr>" and eml = ErrShortBuffer,
        THEN conjunct2, THEN conjunct1]
      tag_late
    have "\<lparr>Header = \<lparr>Protocol = 0xE3, Size = 29\<rparr>, UID = replicate 16 0x11,
        LoginMessage.ClientID = 0x01020304, LoginMessage.Port = 0x1235,
        LoginMessage.Tags = [[0xAA :: byte]]\<rparr> = LoginMessage_zero \<or> ?late"
      by (rule mp)
    then show ?thesis
    proof
      assume "\<lparr>Header = \<lparr>Protocol = 0xE3, Size = 29\<rparr>, UID = replicate 16 0x11,
        LoginMessage.ClientID = 0x01020304, LoginMessage.Port = 0x1235,
        LoginMessage.Tags = [[0xAA :: byte]]\<rparr> = LoginMessage_zero"
      with tag_changed show ?thesis by (rule notE)
    next
      assume ?late
      then show ?thesis .
    qed
  qed
  from early p2 p3 show ?thesis
    apply -
    apply (elim conjE)
    apply (intro conjI)
    apply assumption+
    done
qed

text \<open>
  C3. \<^verbatim>\<open>ServerIdentMessage.Decode\<close> is to fail with \<^verbatim>\<open>ErrShortBuffer\<close> on a buffer shorter
  than 5 plus the payload length of the buffer's own header. The code compares with
  \<^verbatim>\<open>m.Header.Size\<close>, the size in the receiver's header before the call. On a 34-byte
  buffer whose header declares 1000 payload bytes, with the type byte of the variant, a
  tag count of 0 and two bytes of padding, decoded into a zero-valued receiver, it
  returns no error and fills the receiver. No tag is read, so this holds whatever the
  tag reader and the type constant are.
\<close>

theorem ServerIdent_stale_size_check:
  "Header_Decode ([0xE3, 0xE8, 0x03, 0, 0, MessageServerIdent E] @ replicate 16 0x11
        @ [0x7F, 0, 0, 1, 0x35, 0x12, 0, 0, 0, 0, 0, 0])
     = Inr \<lparr>Protocol = 0xE3, Size = 1000\<rparr> \<and>
   length ([0xE3, 0xE8, 0x03, 0, 0, MessageServerIdent E] @ replicate 16 0x11
        @ [0x7F, 0, 0, 1, 0x35, 0x12, 0, 0, 0, 0, 0, 0]) = 34 \<and>
   ServerIdentMessage_Decode E ServerIdentMessage_zero
       ([0xE3, 0xE8, 0x03, 0, 0, MessageServerIdent E] @ replicate 16 0x11
        @ [0x7F, 0, 0, 1, 0x35, 0x12, 0, 0, 0, 0, 0, 0])
     = Some (\<lparr>Header = \<lparr>Protocol = 0xE3, Size = 1000\<rparr>, Hash = replicate 16 0x11,
              ServerIdentMessage.IP = 0x0100007F, ServerIdentMessage.Port = 0x1235,
              ServerIdentMessage.Tags = []\<rparr>, None)"
  by (simp add: ServerIdentMessage_Decode_def Header_Decode_def decode_defs
      ServerIdentMessage_zero_def)

text \<open>
  C4, as stated: the little-endian \<^verbatim>\<open>uint32\<close> at offsets 1 to 5 of an encoded message
  equals its length minus 5. The code stores \<^verbatim>\<open>uint32(size)\<close>, so the claim fails once
  the payload reaches \<open>2\<^sup>3\<^sup>2\<close> bytes: for a \<^verbatim>\<open>ServerMessage\<close> whose text is \<open>2\<^sup>3\<^sup>2\<close> bytes
  long the stored value is 3 and the length minus 5 is \<open>2\<^sup>3\<^sup>2 + 3\<close>.
\<close>

theorem Encode_header_size_wraps:
  "ServerMessage_Encode sample_env
       (Some \<lparr>Header = \<lparr>Protocol = 0xE3, Size = 0\<rparr>, Messages = replicate 4294967296 0\<rparr>)
     = Inr ([0xE3, 3, 0, 0, 0, 0x38, 0, 0] @ replicate 4294967296 0) \<and>
   Header_Decode ([0xE3, 3, 0, 0, 0, 0x38, 0, 0] @ replicate 4294967296 0)
     = Inr \<lparr>Protocol = 0xE3, Size = 3\<rparr> \<and>
   length ([0xE3, 3, 0, 0, 0, 0x38, 0, 0] @ replicate 4294967296 (0 :: byte)) - HeaderLength
     = 4294967299 \<and>
   unat (3 :: 32 word) \<noteq> 4294967299"
  by (simp add: ServerMessage_Encode_def put_size_frame Header_Decode_def PutUint32_def
      PutUint16_def HeaderLength_def sample_env_def)

text \<open>
  C4, amended. For every message variant and every non-nil message on which \<^verbatim>\<open>Encode\<close>
  returns data, the header of the data decodes and its size field is the length of the
  data minus 5 modulo \<open>2\<^sup>3\<^sup>2\<close>; it is the length minus 5 itself whenever that is below
  \<open>2\<^sup>3\<^sup>2\<close>.
\<close>

theorem Encode_header_size:
  "(LoginMessage_Encode E (Some ml) = Inr dl \<longrightarrow>
      (\<exists>h. Header_Decode dl = Inr h \<and>
         unat (Size h) = (length dl - HeaderLength) mod 2 ^ 32 \<and>
         (length dl - HeaderLength < 2 ^ 32 \<longrightarrow> unat (Size h) = length dl - HeaderLength))) \<and>
   (ServerMessage_Encode E (Some msm) = Inr dsm \<longrightarrow>
      (\<exists>h. Header_Decode dsm = Inr h \<and>
         unat (Size h) = (length dsm - HeaderLength) mod 2 ^ 32 \<and>
         (length dsm - HeaderLength < 2 ^ 32 \<longrightarrow> unat (Size h) = length dsm - HeaderLength))) \<and>
   (IDChangeMessage_Encode E (Some mid) = Inr did \<longrightarrow>
      (\<exists>h. Header_Decode did = Inr h \<and>
         unat (Size h) = (length did - HeaderLength) mod 2 ^ 32 \<and>
         (length did - HeaderLength < 2 ^ 32 \<longrightarrow> unat (Size h) = length did - HeaderLength))) \<and>
   (OfferFilesMessage_Encode E (Some mof) = Inr dof \<longrightarrow>
      (\<exists>h. Header_Decode dof = Inr h \<and>
         unat (Size h) = (length dof - HeaderLength) mod 2 ^ 32 \<and>
         (length dof - HeaderLength < 2 ^ 32 \<longrightarrow> unat (Size h) = length dof - HeaderLength))) \<and>
   (GetServerListMessage_Encode E (Some mgs) = Inr dgs \<longrightarrow>
      (\<exists>h. Header_Decode dgs = Inr h \<and>
         unat (Size h) = (length dgs - HeaderLength) mod 2 ^ 32 \<and>
         (length dgs - HeaderLength < 2 ^ 32 \<longrightarrow> unat (Size h) = length dgs - HeaderLength))) \<and>
   (ServerListMessage_Encode E (Some msl) = Inr dsl \<longrightarrow>
      (\<exists>h. Header_Decode dsl = Inr h \<and>
         unat (Size h) = (length dsl - HeaderLength) mod 2 ^ 32 \<and>
         (length dsl - HeaderLength < 2 ^ 32 \<longrightarrow> unat (Size h) = length dsl - HeaderLength))) \<and>
   (ServerStatusMessage_Encode E (Some mss) = Inr dss \<longrightarrow>
      (\<exists>h. Header_Decode dss = Inr h \<and>
         unat (Size h) = (length dss - HeaderLength) mod 2 ^ 32 \<and>
         (length dss - HeaderLength < 2 ^ 32 \<longrightarrow> unat (Size h) = length dss - HeaderLength))) \<and>
   (ServerIdentMessage_Encode E (Some msi) = Inr dsi \<longrightarrow>
      (\<exists>h. Header_Decode dsi = Inr h \<and>
         unat (Size h) = (length dsi - HeaderLength) mod 2 ^ 32 \<and>
         (length dsi - HeaderLength < 2 ^ 32 \<longrightarrow> unat (Size h) = length dsi - HeaderLength)))"
  using stored_size [OF Login_Encode_header [of E ml dl]]
    stored_size [OF ServerMessage_Encode_header [of E msm dsm]]
    stored_size [OF IDChange_Encode_header [of E mid did]]
    stored_size [OF OfferFiles_Encode_header [of E mof dof]]
    stored_size [OF GetServerList_Encode_header [of E mgs dgs]]
    stored_size [OF ServerList_Encode_header [of E msl dsl]]
    stored_size [OF ServerStatus_Encode_header [of E mss dss]]
    stored_size [OF ServerIdent_Encode_header [of E msi dsi]]
  by blast

theorem Encode_header_size_witness:
  "(\<exists>h. Header_Decode ([0xE3, 29, 0, 0, 0, 0x01] @ replicate 16 0x11 @ [4, 3, 2, 1, 0x35, 0x12, 1, 0, 0, 0, 1, 0xAA]) = Inr h \<and> unat (Size h) = 29) \<and>
   (\<exists>h. Header_Decode ([0xE3, 5, 0, 0, 0, 0x38, 2, 0, 0x68, 0x69]) = Inr h \<and> unat (Size h) = 5) \<and>
   (\<exists>h. Header_Decode ([0xE3, 9, 0, 0, 0, 0x40, 4, 3, 2, 1, 1, 0, 0, 0]) = Inr h \<and> unat (Size h) = 9) \<and>
   (\<exists>h. Header_Decode ([0xE3, 7, 0, 0, 0, 0x15, 1, 0, 0, 0, 1, 0xAA]) = Inr h \<and> unat (Size h) = 7) \<and>
   (\<exists>h. Header_Decode ([0xE3, 1, 0, 0, 0, 0x14]) = Inr h \<and> unat (Size h) = 1) \<and>
   (\<exists>h. Header_Decode ([0xE3, 8, 0, 0, 0, 0x32, 1, 10, 0, 0, 1, 0x35, 0x12]) = Inr h \<and> unat (Size h) = 8) \<and>
   (\<exists>h. Header_Decode ([0xE3, 9, 0, 0, 0, 0x34, 5, 0, 0, 0, 7, 0, 0, 0]) = Inr h \<and> unat (Size h) = 9) \<and>
   (\<exists>h. Header_Decode ([0xE3, 29, 0, 0, 0, 0x41] @ replicate 16 0x11 @ [0x7F, 0, 0, 1, 0x35, 0x12, 1, 0, 0, 0, 1, 0xAA]) = Inr h \<and> unat (Size h) = 29)"
proof -
  have ml: "LoginMessage_Encode sample_env
        (Some \<lparr>Header = \<lparr>Protocol = 0xE3, Size = 0\<rparr>, UID = replicate 16 0x11, LoginMessage.ClientID = 0x01020304,
          LoginMessage.Port = 0x1235, LoginMessage.Tags = [[0xAA]]\<rparr>)
      = Inr ([0xE3, 29, 0, 0, 0, 0x01] @ replicate 16 0x11 @ [4, 3, 2, 1, 0x35, 0x12, 1, 0, 0, 0, 1, 0xAA])"
    by (simp add: LoginMessage_Encode_def Header_WriteTo_def put_size_def PutUint32_def PutUint16_def
        HeaderLength_def sample_env_def sample_write_def UID_Bytes_def To4_def)
  have msm: "ServerMessage_Encode sample_env
        (Some \<lparr>Header = \<lparr>Protocol = 0xE3, Size = 0\<rparr>, Messages = [0x68, 0x69]\<rparr>)
      = Inr ([0xE3, 5, 0, 0, 0, 0x38, 2, 0, 0x68, 0x69])"
    by (simp add: ServerMessage_Encode_def Header_WriteTo_def put_size_def PutUint32_def PutUint16_def
        HeaderLength_def sample_env_def sample_write_def UID_Bytes_def To4_def)
  have mid: "IDChangeMessage_Encode sample_env
        (Some \<lparr>Header = \<lparr>Protocol = 0xE3, Size = 0\<rparr>, IDChangeMessage.ClientID = 0x01020304, Bitmap = 1\<rparr>)
      = Inr ([0xE3, 9, 0, 0, 0, 0x40, 4, 3, 2, 1, 1, 0, 0, 0])"
    by (simp add: IDChangeMessage_Encode_def Header_WriteTo_def put_size_def PutUint32_def PutUint16_def
        HeaderLength_def sample_env_def sample_write_def UID_Bytes_def To4_def)
  have mof: "OfferFilesMessage_Encode sample_env
        (Some \<lparr>Header = \<lparr>Protocol = 0xE3, Size = 0\<rparr>, Files = [[0xAA]]\<rparr>)
      = Inr ([0xE3, 7, 0, 0, 0, 0x15, 1, 0, 0, 0, 1, 0xAA])"
    by (simp add: OfferFilesMessage_Encode_def Header_WriteTo_def put_size_def PutUint32_def PutUint16_def
        HeaderLength_def sample_env_def sample_write_def UID_Bytes_def To4_def)
  have mgs: "GetServerListMessage_Encode sample_env
        (Some \<lparr>Header = \<lparr>Protocol = 0xE3, Size = 0\<rparr>\<rparr>)
      = Inr ([0xE3, 1, 0, 0, 0, 0x14])"
    by (simp add: GetServerListMessage_Encode_def Header_WriteTo_def put_size_def PutUint32_def PutUint16_def
        HeaderLength_def sample_env_def sample_write_def UID_Bytes_def To4_def)
  have msl: "ServerListMessage_Encode sample_env
        (Some \<lparr>Header = \<lparr>Protocol = 0xE3, Size = 0\<rparr>,
          Servers = [Some \<lparr>TCPAddr.IP = [10, 0, 0, 1], Port = 4661, Zone = []\<rparr>]\<rparr>)
      = Inr ([0xE3, 8, 0, 0, 0, 0x32, 1, 10, 0, 0, 1, 0x35, 0x12])"
    by (simp add: ServerListMessage_Encode_def Header_WriteTo_def put_size_def PutUint32_def PutUint16_def
        HeaderLength_def sample_env_def sample_write_def UID_Bytes_def To4_def)
  have mss: "ServerStatusMessage_Encode sample_env
        (Some \<lparr>Header = \<lparr>Protocol = 0xE3, Size = 0\<rparr>, UserCount = 5, FileCount = 7\<rparr>)
      = Inr ([0xE3, 9, 0, 0, 0, 0x34, 5, 0, 0, 0, 7, 0, 0, 0])"
    by (simp add: ServerStatusMessage_Encode_def Header_WriteTo_def put_size_def PutUint32_def PutUint16_def
        HeaderLength_def sample_env_def sample_write_def UID_Bytes_def To4_def)
  have msi: "ServerIdentMessage_Encode sample_env
        (Some \<lparr>Header = \<lparr>Protocol = 0xE3, Size = 0\<rparr>, Hash = replicate 16 0x11, ServerIdentMessage.IP = 0x0100007F,
          ServerIdentMessage.Port = 0x1235, ServerIdentMessage.Tags = [[0xAA]]\<rparr>)
      = Inr ([0xE3, 29, 0, 0, 0, 0x41] @ replicate 16 0x11 @ [0x7F, 0, 0, 1, 0x35, 0x12, 1, 0, 0, 0, 1, 0xAA])"
    by (simp add: ServerIdentMessage_Encode_def Header_WriteTo_def put_size_def PutUint32_def PutUint16_def
        HeaderLength_def sample_env_def sample_write_def UID_Bytes_def To4_def)
  show ?thesis
    using Encode_header_size [where E = sample_env
        and ml = "\<lparr>Header = \<lparr>Protocol = 0xE3, Size = 0\<rparr>, UID = replicate 16 0x11, LoginMessage.ClientID = 0x01020304,
          LoginMessage.Port = 0x1235, LoginMessage.Tags = [[0xAA]]\<rparr>"
        and dl = "[0xE3, 29, 0, 0, 0, 0x01] @ replicate 16 0x11 @ [4, 3, 2, 1, 0x35, 0x12, 1, 0, 0, 0, 1, 0xAA]"
        and msm = "\<lparr>Header = \<lparr>Protocol = 0xE3, Size = 0\<rparr>, Messages = [0x68, 0x69]\<rparr>"
        and dsm = "[0xE3, 5, 0, 0, 0, 0x38, 2, 0, 0x68, 0x69]"
        and mid = "\<lparr>Header = \<lparr>Protocol = 0xE3, Size = 0\<rparr>, IDChangeMessage.ClientID = 0x01020304, Bitmap = 1\<rparr>"
        and did = "[0xE3, 9, 0, 0, 0, 0x40, 4, 3, 2, 1, 1, 0, 0, 0]"
        and mof = "\<lparr>Header = \<lparr>Protocol = 0xE3, Size = 0\<rparr>, Files = [[0xAA]]\<rparr>"
        and dof = "[0xE3, 7, 0, 0, 0, 0x15, 1, 0, 0, 0, 1, 0xAA]"
        and mgs = "\<lparr>Header = \<lparr>Protocol = 0xE3, Size = 0\<rparr>\<rparr>"
        and dgs = "[0xE3, 1, 0, 0, 0, 0x14]"
        and msl = "\<lparr>Header = \<lparr>Protocol = 0xE3, Size = 0\<rparr>,
          Servers = [Some \<lparr>TCPAddr.IP = [10, 0, 0, 1], Port = 4661, Zone = []\<rparr>]\<rparr>"
        and dsl = "[0xE3, 8, 0, 0, 0, 0x32, 1, 10, 0, 0, 1, 0x35, 0x12]"
        and mss = "\<lparr>Header = \<lparr>Protocol = 0xE3, Size = 0\<rparr>, UserCount = 5, FileCount = 7\<rparr>"
        and dss = "[0xE3, 9, 0, 0, 0, 0x34, 5, 0, 0, 0, 7, 0, 0, 0]"
        and msi = "\<lparr>Header = \<lparr>Protocol = 0xE3, Size = 0\<rparr>, Hash = replicate 16 0x11, ServerIdentMessage.IP = 0x0100007F,
          ServerIdentMessage.Port = 0x1235, ServerIdentMessage.Tags = [[0xAA]]\<rparr>"
        and dsi = "[0xE3, 29, 0, 0, 0, 0x41] @ replicate 16 0x11 @ [0x7F, 0, 0, 1, 0x35, 0x12, 1, 0, 0, 0, 1, 0xAA]"]
      ml msm mid mof mgs msl mss msi
    by (auto simp: HeaderLength_def)
qed

text \<open>
  C5. For every message variant, \<^verbatim>\<open>Decode\<close> on a buffer shorter than the variant's
  minimum length (the constant of its length check: 27, 3, 9, 5, 1, 2, 9 and 29 bytes
  after the header) returns \<^verbatim>\<open>ErrShortBuffer\<close> and leaves the receiver as it was; and on
  no buffer at all does \<^verbatim>\<open>Decode\<close> panic, that is, index or slice out of range.
\<close>

theorem Decode_truncated:
  "(LoginMessage_Decode E ml data \<noteq> None \<and>
      (length data < HeaderLength + 27 \<longrightarrow>
         LoginMessage_Decode E ml data = Some (ml, Some ErrShortBuffer))) \<and>
   (ServerMessage_Decode E msm data \<noteq> None \<and>
      (length data < HeaderLength + 3 \<longrightarrow>
         ServerMessage_Decode E msm data = Some (msm, Some ErrShortBuffer))) \<and>
   (IDChangeMessage_Decode E mid data \<noteq> None \<and>
      (length data < HeaderLength + 9 \<longrightarrow>
         IDChangeMessage_Decode E mid data = Some (mid, Some ErrShortBuffer))) \<and>
   (OfferFilesMessage_Decode E mof data \<noteq> None \<and>
      (length data < HeaderLength + 5 \<longrightarrow>
         OfferFilesMessage_Decode E mof data = Some (mof, Some ErrShortBuffer))) \<and>
   (GetServerListMessage_Decode E mgs data \<noteq> None \<and>
      (length data < HeaderLength + 1 \<longrightarrow>
         GetServerListMessage_Decode E mgs data = Some (mgs, Some ErrShortBuffer))) \<and>
   (ServerListMessage_Decode E msl data \<noteq> None \<and>
      (length data < HeaderLength + 2 \<longrightarrow>
         ServerListMessage_Decode E msl data = Some (msl, Some ErrShortBuffer))) \<and>
   (ServerStatusMessage_Decode E mss data \<noteq> None \<and>
      (length data < HeaderLength + 9 \<longrightarrow>
         ServerStatusMessage_Decode E mss data = Some (mss, Some ErrShortBuffer))) \<and>
   (ServerIdentMessage_Decode E msi data \<noteq> None \<and>
      (length data < HeaderLength + 29 \<longrightarrow>
         ServerIdentMessage_Decode E msi data = Some (msi, Some ErrShortBuffer)))"
  using Login_total [of E ml data] Login_short [of data E ml]
    ServerMessage_total [of E msm data] ServerMessage_short [of data E msm]
    IDChange_total [of E mid data] IDChange_short [of data E mid]
    OfferFiles_total [of E mof data] OfferFiles_short [of data E mof]
    GetServerList_total [of E mgs data] GetServerList_short [of data E mgs]
    ServerList_total [of E msl data] ServerList_short [of data E msl]
    ServerStatus_total [of E mss data] ServerStatus_short [of data E mss]
    ServerIdent_total [of E msi data] ServerIdent_short [of data E msi]
  unfolding HeaderLength_def by simp

theorem Decode_truncated_witness:
  "LoginMessage_Decode sample_env (LoginMessage_zero :: byte list LoginMessage)
       [0xE3, 27, 0, 0, 0, 0x01, 7]
     = Some (LoginMessage_zero, Some ErrShortBuffer) \<and>
   ServerMessage_Decode sample_env ServerMessage_zero [0xE3, 27, 0, 0, 0, 0x01, 7]
     = Some (ServerMessage_zero, Some ErrShortBuffer) \<and>
   IDChangeMessage_Decode sample_env IDChangeMessage_zero [0xE3, 27, 0, 0, 0, 0x01, 7]
     = Some (IDChangeMessage_zero, Some ErrShortBuffer) \<and>
   OfferFilesMessage_Decode sample_env (OfferFilesMessage_zero :: byte list OfferFilesMessage)
       [0xE3, 27, 0, 0, 0, 0x01, 7]
     = Some (OfferFilesMessage_zero, Some ErrShortBuffer) \<and>
   GetServerListMessage_Decode sample_env GetServerListMessage_zero [0xE3, 27, 0]
     = Some (GetServerListMessage_zero, Some ErrShortBuffer) \<and>
   ServerListMessage_Decode sample_env ServerListMessage_zero [0xE3, 27, 0]
     = Some (ServerListMessage_zero, Some ErrShortBuffer) \<and>
   ServerStatusMessage_Decode sample_env ServerStatusMessage_zero [0xE3, 27, 0, 0, 0, 0x01, 7]
     = Some (ServerStatusMessage_zero, Some ErrShortBuffer) \<and>
   ServerIdentMessage_Decode sample_env (ServerIdentMessage_zero :: byte list ServerIdentMessage)
       [0xE3, 27, 0, 0, 0, 0x01, 7]
     = Some (ServerIdentMessage_zero, Some ErrShortBuffer)"
  using Decode_truncated [where E = sample_env and data = "[0xE3, 27, 0, 0, 0, 0x01, 7]"
      and ml = LoginMessage_zero and msm = ServerMessage_zero and mid = IDChangeMessage_zero
      and mof = OfferFilesMessage_zero and mss = ServerStatusMessage_zero
      and msi = ServerIdentMessage_zero]
    Decode_truncated [where E = sample_env and data = "[0xE3, 27, 0]"
      and mgs = GetServerListMessage_zero and msl = ServerListMessage_zero]
  by (simp add: HeaderLength_def)



text \<open>
  C7. Encoding a \<^verbatim>\<open>ServerListMessage\<close> with three server entries of which at least one
  is nil, the others being IPv4 addresses (\<^verbatim>\<open>To4\<close> gives their four bytes), produces the
  header with payload length 20, the type byte, a count byte equal to 3 and exactly 18
  bytes more; the six bytes of every nil slot are zero: four for the IP, two for the
  port.
\<close>

theorem ServerList_Encode_three:
  assumes "length (Servers m) = 3"
    and "None \<in> set (Servers m)"
    and "\<forall>a. Some a \<in> set (Servers m) \<longrightarrow> length (To4 (TCPAddr.IP a)) = 4"
  shows "\<exists>body. ServerListMessage_Encode E (Some m)
             = Inr (Protocol (Header m) # PutUint32 20 @ MessageServerList E # 3 # body) \<and>
           length body = 18 \<and>
           (\<forall>i<3. Servers m ! i = None \<longrightarrow> take 6 (drop (6 * i) body) = [0, 0, 0, 0, 0, 0])"
proof -
  define entry :: "TCPAddr option \<Rightarrow> byte list" where "entry = (\<lambda>s. case s of
       None \<Rightarrow> [0, 0, 0, 0, 0, 0]
     | Some a \<Rightarrow> To4 (TCPAddr.IP a) @ PutUint16 (of_int (TCPAddr.Port a)))"
  from assms(1) obtain s0 s1 s2 where s: "Servers m = [s0, s1, s2]"
    by (auto simp: length_Suc_conv numeral_3_eq_3)
  have len: "length (entry x) = 6" if "x \<in> set (Servers m)" for x
  proof (cases x)
    case None
    then show ?thesis by (simp add: entry_def)
  next
    case (Some a)
    with that assms(3) have "length (To4 (TCPAddr.IP a)) = 4" by blast
    then show ?thesis by (simp add: entry_def Some)
  qed
  have l: "length (entry s0) = 6" "length (entry s1) = 6" "length (entry s2) = 6"
    using len by (simp_all add: s)
  have none: "entry None = [0, 0, 0, 0, 0, 0]" by (simp add: entry_def)
  let ?body = "entry s0 @ entry s1 @ entry s2"
  have enc: "ServerListMessage_Encode E (Some m)
      = Inr (Protocol (Header m) # PutUint32 20 @ MessageServerList E # 3 # ?body)"
    using l by (simp add: ServerListMessage_Encode_def Let_def write_servers_concat s
        put_size_frame entry_def [symmetric])
  have zero: "take 6 (drop (6 * i) ?body) = [0, 0, 0, 0, 0, 0]"
    if "i < 3" "Servers m ! i = None" for i
  proof -
    from that(1) consider "i = 0" | "i = 1" | "i = 2" by linarith
    then show ?thesis
      using that(2) l none by cases (simp_all add: s)
  qed
  show ?thesis
    using enc l zero by (intro exI [of _ ?body]) simp
qed

theorem ServerList_Encode_three_witness:
  "\<exists>body. ServerListMessage_Encode sample_env
       (Some \<lparr>Header = \<lparr>Protocol = 0xE3, Size = 0\<rparr>,
              Servers = [Some \<lparr>TCPAddr.IP = [10, 0, 0, 1], Port = 4661, Zone = []\<rparr>, None,
                         Some \<lparr>TCPAddr.IP = [192, 168, 1, 2], Port = 4242, Zone = []\<rparr>]\<rparr>)
     = Inr (0xE3 # PutUint32 20 @ 0x32 # 3 # body) \<and>
     length body = 18 \<and> take 6 (drop 6 body) = [0, 0, 0, 0, 0, 0]"
proof -
  let ?m = "\<lparr>Header = \<lparr>Protocol = 0xE3, Size = 0\<rparr>,
              Servers = [Some \<lparr>TCPAddr.IP = [10, 0, 0, 1], Port = 4661, Zone = []\<rparr>, None,
                         Some \<lparr>TCPAddr.IP = [192, 168, 1, 2], Port = 4242, Zone = []\<rparr>]\<rparr>"
  have h1: "length (Servers ?m) = 3" by simp
  have h2: "None \<in> set (Servers ?m)" by simp
  have h3: "\<forall>a. Some a \<in> set (Servers ?m) \<longrightarrow> length (To4 (TCPAddr.IP a)) = 4"
    by (auto simp: To4_def)
  from ServerList_Encode_three [OF h1 h2 h3, where E = sample_env] obtain body where
    body: "ServerListMessage_Encode sample_env (Some ?m)
        = Inr (Protocol (Header ?m) # PutUint32 20 @ MessageServerList sample_env # 3 # body)"
      "length body = 18"
      "\<forall>i<3. Servers ?m ! i = None \<longrightarrow> take 6 (drop (6 * i) body) = [0, 0, 0, 0, 0, 0]"
    by blast
  from body(3) [rule_format, of 1] have "take 6 (drop 6 body) = [0, 0, 0, 0, 0, 0]"
    by simp
  with body(1,2) show ?thesis
    by (intro exI [of _ body]) (simp add: sample_env_def)
qed

text \<open>
  C8. The \<^verbatim>\<open>IDChangeMessage\<close> with client ID \<open>0x01020304\<close> and bitmap \<open>0x1\<close> encodes to
  the fourteen bytes shown and decodes, into any receiver, to the identical struct. For
  every message \<open>m\<close>, whatever bits its bitmap has set, \<^verbatim>\<open>Encode\<close> succeeds and \<^verbatim>\<open>Decode\<close>
  of the data succeeds with the bitmap and the client ID of \<open>m\<close>: the result is \<open>m\<close>
  with the payload length 9 in its header. No bitmap is rejected.
\<close>

theorem IDChange_roundtrip:
  "IDChangeMessage_Encode E
       (Some \<lparr>Header = \<lparr>Protocol = p, Size = 9\<rparr>, IDChangeMessage.ClientID = 0x01020304,
              Bitmap = 0x1\<rparr>)
     = Inr [p, 9, 0, 0, 0, MessageIDChange E, 4, 3, 2, 1, 1, 0, 0, 0] \<and>
   IDChangeMessage_Decode E r [p, 9, 0, 0, 0, MessageIDChange E, 4, 3, 2, 1, 1, 0, 0, 0]
     = Some (\<lparr>Header = \<lparr>Protocol = p, Size = 9\<rparr>, IDChangeMessage.ClientID = 0x01020304,
              Bitmap = 0x1\<rparr>, None) \<and>
   (\<exists>data m'. IDChangeMessage_Encode E (Some m) = Inr data \<and>
      IDChangeMessage_Decode E r data = Some (m', None) \<and>
      Bitmap m' = Bitmap m \<and> IDChangeMessage.ClientID m' = IDChangeMessage.ClientID m \<and>
      m' = m\<lparr>Header := \<lparr>Protocol = Protocol (Header m), Size = 9\<rparr>\<rparr>)"
proof -
  let ?m0 = "\<lparr>Header = \<lparr>Protocol = p, Size = 9\<rparr>, IDChangeMessage.ClientID = 0x01020304,
              Bitmap = 0x1\<rparr>"
  have enc0: "IDChangeMessage_Encode E (Some ?m0)
      = Inr [p, 9, 0, 0, 0, MessageIDChange E, 4, 3, 2, 1, 1, 0, 0, 0]"
    by (simp add: IDChangeMessage_Encode_def Header_WriteTo_def put_size_def PutUint32_def
        HeaderLength_def)
  have dec0: "IDChangeMessage_Decode E r [p, 9, 0, 0, 0, MessageIDChange E, 4, 3, 2, 1, 1, 0, 0, 0]
      = Some (?m0, None)"
    using IDChange_roundtrip_gen [OF enc0, of r] by simp
  obtain data where enc: "IDChangeMessage_Encode E (Some m) = Inr data"
    by (simp add: IDChangeMessage_Encode_def Let_def)
  have "IDChangeMessage_Decode E r data
      = Some (m\<lparr>Header := \<lparr>Protocol = Protocol (Header m), Size = 9\<rparr>\<rparr>, None)"
    using IDChange_roundtrip_gen [OF enc, of r] by simp
  with enc0 dec0 enc show ?thesis by simp
qed

theorem IDChange_roundtrip_witness:
  "\<exists>data m'. IDChangeMessage_Encode sample_env
        (Some \<lparr>Header = \<lparr>Protocol = 0xE3, Size = 0\<rparr>, IDChangeMessage.ClientID = 0x01020304,
               Bitmap = 0x3\<rparr>) = Inr data \<and>
      IDChangeMessage_Decode sample_env IDChangeMessage_zero data = Some (m', None) \<and>
      Bitmap m' = 0x3 \<and> IDChangeMessage.ClientID m' = 0x01020304"
proof -
  let ?m = "\<lparr>Header = \<lparr>Protocol = 0xE3, Size = 0\<rparr>, IDChangeMessage.ClientID = 0x01020304,
               Bitmap = 0x3\<rparr>"
  from IDChange_roundtrip [where E = sample_env and r = IDChangeMessage_zero and p = "0xE3"
      and m = ?m]
  obtain data m' where "IDChangeMessage_Encode sample_env (Some ?m) = Inr data"
    "IDChangeMessage_Decode sample_env IDChangeMessage_zero data = Some (m', None)"
    "Bitmap m' = Bitmap ?m" "IDChangeMessage.ClientID m' = IDChangeMessage.ClientID ?m"
    by blast
  then show ?thesis
    by (intro exI [of _ data] exI [of _ m']) simp
qed

text \<open>
  C9. An \<^verbatim>\<open>OfferFilesMessage\<close> with no files encodes to exactly ten bytes: the header
  (the protocol marker and the payload length 5), the type byte and four zero bytes of
  count. Decoding these bytes into a zero-valued message returns no error and an empty
  file list.
\<close>

theorem OfferFiles_empty:
  "OfferFilesMessage_Encode E (Some \<lparr>Header = h, Files = []\<rparr>)
     = Inr [Protocol h, 5, 0, 0, 0, MessageOfferFiles E, 0, 0, 0, 0] \<and>
   OfferFilesMessage_Decode E OfferFilesMessage_zero
       [Protocol h, 5, 0, 0, 0, MessageOfferFiles E, 0, 0, 0, 0]
     = Some (\<lparr>Header = \<lparr>Protocol = Protocol h, Size = 5\<rparr>, Files = []\<rparr>, None)"
proof -
  have enc: "OfferFilesMessage_Encode E (Some \<lparr>Header = h, Files = []\<rparr>)
      = Inr [Protocol h, 5, 0, 0, 0, MessageOfferFiles E, 0, 0, 0, 0]"
    by (simp add: OfferFilesMessage_Encode_def Header_WriteTo_def put_size_def PutUint32_def
        HeaderLength_def)
  show ?thesis
    using OfferFiles_roundtrip_gen [OF enc, of OfferFilesMessage_zero] enc
    by (simp add: OfferFilesMessage_zero_def)
qed

theorem OfferFiles_empty_witness:
  "OfferFilesMessage_Encode sample_env (Some \<lparr>Header = \<lparr>Protocol = 0xE3, Size = 0\<rparr>, Files = []\<rparr>)
     = Inr [0xE3, 5, 0, 0, 0, 0x15, 0, 0, 0, 0] \<and>
   OfferFilesMessage_Decode sample_env OfferFilesMessage_zero [0xE3, 5, 0, 0, 0, 0x15, 0, 0, 0, 0]
     = Some (\<lparr>Header = \<lparr>Protocol = 0xE3, Size = 5\<rparr>, Files = []\<rparr>, None)"
  using OfferFiles_empty [where E = sample_env and h = "\<lparr>Protocol = 0xE3, Size = 0\<rparr>"]
  by (simp add: sample_env_def)

text \<open>
  C10. \<^verbatim>\<open>ServerMessage.Encode\<close> writes at offsets 6 to 8 the 16-bit value
  \<^verbatim>\<open>len(Messages)\<close> modulo \<open>2\<^sup>1\<^sup>6\<close>. \<^verbatim>\<open>ServerMessage.Decode\<close>, when it succeeds, sets
  \<^verbatim>\<open>Messages\<close> to exactly the number of bytes that the prefix of its buffer declares,
  taken from offset 8. So decoding an encoded message gives the first
  \<^verbatim>\<open>len(Messages)\<close> modulo \<open>2\<^sup>1\<^sup>6\<close> bytes of the text, which is the text if and only if it
  is shorter than 65536 bytes; in that case, for a message whose header holds its payload
  length, the decoded message is the message itself.
\<close>

theorem ServerMessage_length_prefix:
  "(ServerMessage_Encode E (Some m) = Inr data \<longrightarrow>
      (\<exists>w. Option.bind (slice data 6 8) Uint16 = Some w \<and>
           unat w = length (Messages m) mod 2 ^ 16) \<and>
      (\<exists>r'. ServerMessage_Decode E r data = Some (r', None) \<and>
           Messages r' = take (length (Messages m) mod 2 ^ 16) (Messages m) \<and>
           (Messages r' = Messages m \<longleftrightarrow> length (Messages m) < 65536)) \<and>
      (length (Messages m) < 65536 \<and> Size (Header m) = of_nat (length data - HeaderLength) \<longrightarrow>
         ServerMessage_Decode E r data = Some (m, None))) \<and>
   (ServerMessage_Decode E r buf = Some (r', None) \<longrightarrow>
      (\<exists>w. Option.bind (slice buf 6 8) Uint16 = Some w \<and>
           Messages r' = take (unat w) (drop 8 buf) \<and> length (Messages r') = unat w))"
proof (intro conjI impI)
  assume enc: "ServerMessage_Encode E (Some m) = Inr data"
  show "\<exists>w. Option.bind (slice data 6 8) Uint16 = Some w \<and>
           unat w = length (Messages m) mod 2 ^ 16"
    using ServerMessage_prefix_written [OF enc] by (simp add: unat_of_nat)
  show "\<exists>r'. ServerMessage_Decode E r data = Some (r', None) \<and>
           Messages r' = take (length (Messages m) mod 2 ^ 16) (Messages m) \<and>
           (Messages r' = Messages m \<longleftrightarrow> length (Messages m) < 65536)"
    using ServerMessage_decode_encode [OF enc, of r] take_mod_eq_iff [of "Messages m"]
    by simp
next
  assume enc: "ServerMessage_Encode E (Some m) = Inr data"
    and dom: "length (Messages m) < 65536 \<and> Size (Header m) = of_nat (length data - HeaderLength)"
  show "ServerMessage_Decode E r data = Some (m, None)"
    using ServerMessage_decode_encode [OF enc, of r] dom
    by (simp add: HeaderLength_def)
next
  assume "ServerMessage_Decode E r buf = Some (r', None)"
  then show "\<exists>w. Option.bind (slice buf 6 8) Uint16 = Some w \<and>
           Messages r' = take (unat w) (drop 8 buf) \<and> length (Messages r') = unat w"
    by (rule ServerMessage_Decode_reads)
qed

theorem ServerMessage_length_prefix_witness:
  "Option.bind (slice [0xE3, 5, 0, 0, 0, 0x38, 2, 0, 0x68, 0x69] 6 8) Uint16 = Some 2 \<and>
   ServerMessage_Decode sample_env ServerMessage_zero [0xE3, 5, 0, 0, 0, 0x38, 2, 0, 0x68, 0x69]
     = Some (\<lparr>Header = \<lparr>Protocol = 0xE3, Size = 5\<rparr>, Messages = [0x68, 0x69]\<rparr>, None) \<and>
   length [0x68, 0x69 :: byte] = unat (2 :: 16 word)"
proof -
  let ?m = "\<lparr>Header = \<lparr>Protocol = 0xE3, Size = 5\<rparr>, Messages = [0x68, 0x69]\<rparr>"
  let ?d = "[0xE3, 5, 0, 0, 0, 0x38, 2, 0, 0x68, 0x69 :: byte]"
  have enc: "ServerMessage_Encode sample_env (Some ?m) = Inr ?d"
    by (simp add: ServerMessage_Encode_def Header_WriteTo_def put_size_def PutUint32_def
        PutUint16_def HeaderLength_def sample_env_def)
  have dom: "length (Messages ?m) < 65536 \<and> Size (Header ?m) = of_nat (length ?d - HeaderLength)"
    by (simp add: HeaderLength_def)
  note inst = ServerMessage_length_prefix [where E = sample_env and m = ?m and data = ?d
      and r = ServerMessage_zero and buf = ?d and r' = ?m]
  from inst enc dom have dec: "ServerMessage_Decode sample_env ServerMessage_zero ?d = Some (?m, None)"
    by blast
  with inst have "\<exists>w. Option.bind (slice ?d 6 8) Uint16 = Some w \<and>
      Messages ?m = take (unat w) (drop 8 ?d) \<and> length (Messages ?m) = unat w"
    by blast
  then show ?thesis
    using dec by (auto simp: slice_def)
qed

end
